theory Spec2Isabelle
  imports Complex_Main "HOL-Library.Word" "HOL-Library.Product_Lexorder"
begin

section \<open>JavaScript values\<close>

text \<open>
  A JavaScript string is a sequence of 16-bit code units. Source literals that are plain
  ASCII are written through \<open>ascii\<close>; the Chinese message literals of the sources are written
  out as their code units.
\<close>

type_synonym code_unit = "16 word"
type_synonym js_string = "code_unit list"

definition ascii :: "string \<Rightarrow> js_string" where
  "ascii s = map (\<lambda>c. of_char c) s"

text \<open>
  A number is an IEEE double. The sources never compute with numbers: they only pass them on
  and test them for truthiness, so a finite double is carried as the rational it denotes
  (both zeros are \<open>Finite 0\<close>).
\<close>

datatype js_number = NaN | PosInfinity | NegInfinity | Finite rat

datatype js_value =
    JUndefined
  | JNull
  | JBool bool
  | JNum js_number
  | JStr js_string
  | JObj "js_string \<Rightarrow> js_value option"

type_synonym js_object = "js_string \<Rightarrow> js_value option"

text \<open>ToBoolean: the falsy values are undefined, null, false, 0, NaN and the empty string.\<close>

fun truthy :: "js_value \<Rightarrow> bool" where
  "truthy JUndefined = False"
| "truthy JNull = False"
| "truthy (JBool b) = b"
| "truthy (JNum NaN) = False"
| "truthy (JNum (Finite q)) = (q \<noteq> 0)"
| "truthy (JNum PosInfinity) = True"
| "truthy (JNum NegInfinity) = True"
| "truthy (JStr s) = (s \<noteq> [])"
| "truthy (JObj fields) = True"

text \<open>\<open>a || b\<close> and \<open>a && b\<close> return one of their operands.\<close>

definition js_or :: "js_value \<Rightarrow> js_value \<Rightarrow> js_value" where
  "js_or a b = (if truthy a then a else b)"

definition js_and :: "js_value \<Rightarrow> js_value \<Rightarrow> js_value" where
  "js_and a b = (if truthy a then b else a)"

text \<open>
  Reading a property \<open>v.k\<close> of a value that is neither null nor undefined. The sources read
  the properties \<open>model_name\<close>, \<open>temperature\<close>, \<open>top_p\<close>, \<open>max_tokens\<close>, \<open>error\<close>, \<open>result\<close> and
  \<open>message\<close> only, none of which a primitive's wrapper object or its prototype has, so on a
  primitive the read gives undefined.
\<close>

fun get_prop :: "js_value \<Rightarrow> js_string \<Rightarrow> js_value" where
  "get_prop (JObj fields) k = (case fields k of Some v \<Rightarrow> v | None \<Rightarrow> JUndefined)"
| "get_prop v k = JUndefined"

text \<open>
  The own enumerable properties that an object spread \<open>{...v}\<close> copies: the fields of an
  object, the indexed characters of a string, nothing for any other value.
\<close>

fun digits :: "nat \<Rightarrow> nat \<Rightarrow> js_string" where
  "digits 0 n = []"
| "digits (Suc fuel) n =
     (if n < 10 then [of_nat (48 + n)]
      else digits fuel (n div 10) @ [of_nat (48 + n mod 10)])"

definition decimal :: "nat \<Rightarrow> js_string" where
  "decimal n = digits (Suc n) n"

definition string_props :: "js_string \<Rightarrow> js_object" where
  "string_props s =
     map_of (map (\<lambda>i. (decimal i, JStr [s ! i])) [0..<length s])"

fun own_props :: "js_value \<Rightarrow> js_object" where
  "own_props (JObj fields) = fields"
| "own_props (JStr s) = string_props s"
| "own_props v = Map.empty"

definition spread :: "js_object \<Rightarrow> js_value \<Rightarrow> js_object" where
  "spread obj v = obj ++ own_props v"

section \<open>Application state: context/AppContext\<close>

record app_state =
  modelOptions :: js_object
  loading :: js_value
  error :: js_value

definition initialState :: app_state where
  "initialState =
     \<lparr> modelOptions =
         [ascii ''model'' \<mapsto> JStr (ascii ''glm-4-plus''),
          ascii ''embeddingModel'' \<mapsto> JStr (ascii ''embedding-3''),
          ascii ''dbName'' \<mapsto> JStr (ascii ''financial_terms_zhipu'')],
       loading = JBool False,
       error = JNull \<rparr>"

definition SET_MODEL_OPTIONS :: js_string where
  "SET_MODEL_OPTIONS = ascii ''SET_MODEL_OPTIONS''"

definition SET_LOADING :: js_string where
  "SET_LOADING = ascii ''SET_LOADING''"

definition SET_ERROR :: js_string where
  "SET_ERROR = ascii ''SET_ERROR''"

definition CLEAR_ERROR :: js_string where
  "CLEAR_ERROR = ascii ''CLEAR_ERROR''"

text \<open>An action \<open>{type, payload}\<close>; \<open>clearError\<close> dispatches one whose payload is undefined.\<close>

record action =
  action_type :: js_string
  payload :: js_value

definition reducer :: "app_state \<Rightarrow> action \<Rightarrow> app_state" where
  "reducer state a =
     (if action_type a = SET_MODEL_OPTIONS then
        state\<lparr>modelOptions := spread (modelOptions state) (payload a)\<rparr>
      else if action_type a = SET_LOADING then
        state\<lparr>loading := payload a\<rparr>
      else if action_type a = SET_ERROR then
        state\<lparr>error := payload a\<rparr>
      else if action_type a = CLEAR_ERROR then
        state\<lparr>error := JNull\<rparr>
      else state)"

text \<open>The four callbacks that \<open>AppProvider\<close> hands to the pages, as transitions of the state.\<close>

definition setModelOptions :: "js_value \<Rightarrow> app_state \<Rightarrow> app_state" where
  "setModelOptions options state =
     reducer state \<lparr>action_type = SET_MODEL_OPTIONS, payload = options\<rparr>"

definition setLoading :: "js_value \<Rightarrow> app_state \<Rightarrow> app_state" where
  "setLoading l state = reducer state \<lparr>action_type = SET_LOADING, payload = l\<rparr>"

definition setError :: "js_value \<Rightarrow> app_state \<Rightarrow> app_state" where
  "setError e state = reducer state \<lparr>action_type = SET_ERROR, payload = e\<rparr>"

definition clearError :: "app_state \<Rightarrow> app_state" where
  "clearError state = reducer state \<lparr>action_type = CLEAR_ERROR, payload = JUndefined\<rparr>"

section \<open>API configuration: config/api\<close>

record retry_config =
  maxRetries :: nat
  retryDelay :: nat
  retryableStatusCodes :: "nat list"

record api_config =
  baseURL :: js_value
  prefix :: js_string
  timeout :: nat
  headers :: js_object
  retry :: retry_config
  models :: js_object
  endpoints :: js_object
  errorMessages :: js_object

text \<open>
  The only input of the configuration is the environment variable
  \<open>REACT_APP_API_BASE_URL\<close> (undefined when it is not set). Times are in milliseconds.
\<close>

definition API_CONFIG :: "js_value \<Rightarrow> api_config" where
  "API_CONFIG env_base_url =
     \<lparr> baseURL = js_or env_base_url (JStr (ascii ''http://localhost:8000'')),
       prefix = ascii ''/api'',
       timeout = 30000,
       headers =
         [ascii ''Content-Type'' \<mapsto> JStr (ascii ''application/json''),
          ascii ''Accept'' \<mapsto> JStr (ascii ''application/json'')],
       retry =
         \<lparr> maxRetries = 3,
           retryDelay = 1000,
           retryableStatusCodes = [408, 429, 500, 502, 503, 504] \<rparr>,
       models =
         [ascii ''defaultLLM'' \<mapsto> JStr (ascii ''glm-4-plus''),
          ascii ''defaultEmbedding'' \<mapsto> JStr (ascii ''embedding-3'')],
       endpoints =
         [ascii ''ner'' \<mapsto> JStr (ascii ''/api/ner''),
          ascii ''std'' \<mapsto> JStr (ascii ''/api/std''),
          ascii ''abbr'' \<mapsto> JStr (ascii ''/api/abbr''),
          ascii ''corr'' \<mapsto> JStr (ascii ''/api/corr''),
          ascii ''gen'' \<mapsto> JStr (ascii ''/api/gen'')],
       errorMessages =
         [ascii ''networkError'' \<mapsto>
            JStr [0x7F51, 0x7EDC, 0x8FDE, 0x63A5, 0x5931, 0x8D25, 0xFF0C, 0x8BF7, 0x68C0,
                  0x67E5, 0x7F51, 0x7EDC, 0x8BBE, 0x7F6E],
          ascii ''timeout'' \<mapsto>
            JStr [0x8BF7, 0x6C42, 0x8D85, 0x65F6, 0xFF0C, 0x8BF7, 0x7A0D, 0x540E, 0x91CD,
                  0x8BD5],
          ascii ''serverError'' \<mapsto>
            JStr [0x670D, 0x52A1, 0x5668, 0x9519, 0x8BEF, 0xFF0C, 0x8BF7, 0x7A0D, 0x540E,
                  0x91CD, 0x8BD5],
          ascii ''unknownError'' \<mapsto>
            JStr [0x53D1, 0x751F, 0x672A, 0x77E5, 0x9519, 0x8BEF, 0xFF0C, 0x8BF7, 0x7A0D,
                  0x540E, 0x91CD, 0x8BD5]] \<rparr>"

section \<open>The HTTP client: api/client\<close>

subsection \<open>The axios instance and its transport\<close>

text \<open>
  The request configuration that reaches the interceptors. \<open>axios.create\<close> stores
  \<open>baseURL\<close>, \<open>timeout\<close> and \<open>headers\<close> as the instance defaults; \<open>client.post(url, data)\<close>
  passes no configuration of its own, so a request carries the defaults together with its
  \<open>url\<close>, its \<open>data\<close> and the method \<open>post\<close>.
\<close>

record request_config =
  url :: js_value
  http_method :: js_string
  data :: js_value
  cfg_baseURL :: js_value
  cfg_timeout :: nat
  cfg_headers :: js_object

definition post_config :: "js_value \<Rightarrow> js_value \<Rightarrow> js_value \<Rightarrow> request_config" where
  "post_config env_base_url u d =
     \<lparr> url = u,
       http_method = ascii ''post'',
       data = d,
       cfg_baseURL = baseURL (API_CONFIG env_base_url),
       cfg_timeout = timeout (API_CONFIG env_base_url),
       cfg_headers = headers (API_CONFIG env_base_url) \<rparr>"

record response =
  status :: nat
  response_data :: js_value

text \<open>
  The error object that axios passes to a rejection handler: \<open>error.response\<close> when the server
  answered with a status outside 200..299, whether \<open>error.request\<close> is set (the request went
  out and no answer came: network failure or timeout), and \<open>error.message\<close>.
\<close>

record axios_error =
  error_response :: "response option"
  error_request :: bool
  error_message :: js_value

text \<open>
  What the server does with one attempt, as axios sees it: it answers after some
  milliseconds with a status and a parsed body, the connection fails after some
  milliseconds, or nothing ever comes back.
\<close>

datatype server_behaviour =
    Replies nat nat js_value
  | ConnectionFails nat
  | Silent

datatype transport_result = Answered response | Failed axios_error

definition no_response_error :: axios_error where
  "no_response_error =
     \<lparr> error_response = None, error_request = True, error_message = JUndefined \<rparr>"

text \<open>
  The axios adapter with its \<open>timeout\<close> option \<open>t\<close>: with \<open>t = 0\<close> there is no timeout; with
  \<open>t > 0\<close> a request that takes longer than \<open>t\<close> milliseconds is aborted at \<open>t\<close> with an error
  that carries the request and no response. A status in 200..299 fulfils the promise, any
  other status rejects it with an error that carries the response. The result is paired with
  the milliseconds elapsed; \<open>None\<close> is a promise that never settles.
\<close>

definition validateStatus :: "nat \<Rightarrow> bool" where
  "validateStatus s \<longleftrightarrow> 200 \<le> s \<and> s < 300"

fun adapter :: "nat \<Rightarrow> server_behaviour \<Rightarrow> (transport_result \<times> nat) option" where
  "adapter t (Replies ms s body) =
     (if t \<noteq> 0 \<and> t < ms then Some (Failed no_response_error, t)
      else if validateStatus s then
        Some (Answered \<lparr>status = s, response_data = body\<rparr>, ms)
      else
        Some (Failed \<lparr> error_response = Some \<lparr>status = s, response_data = body\<rparr>,
                        error_request = True, error_message = JUndefined \<rparr>, ms))"
| "adapter t (ConnectionFails ms) =
     (if t \<noteq> 0 \<and> t < ms then Some (Failed no_response_error, t)
      else Some (Failed no_response_error, ms))"
| "adapter t Silent =
     (if t \<noteq> 0 then Some (Failed no_response_error, t) else None)"

text \<open>Whether the server's behaviour comes to an end within \<open>t\<close> milliseconds.\<close>

fun settles_within :: "nat \<Rightarrow> server_behaviour \<Rightarrow> bool" where
  "settles_within t (Replies ms s body) = (ms \<le> t)"
| "settles_within t (ConnectionFails ms) = (ms \<le> t)"
| "settles_within t Silent = False"

subsection \<open>The request interceptor\<close>

definition model_name :: js_string where "model_name = ascii ''model_name''"
definition temperature :: js_string where "temperature = ascii ''temperature''"
definition top_p :: js_string where "top_p = ascii ''top_p''"
definition max_tokens :: js_string where "max_tokens = ascii ''max_tokens''"

definition request_interceptor :: "js_value \<Rightarrow> request_config \<Rightarrow> request_config" where
  "request_interceptor env_base_url config =
     (if truthy (data config) then
        config\<lparr>data := JObj
          ((spread Map.empty (data config))
             (model_name \<mapsto>
                js_or (get_prop (data config) model_name)
                  (get_prop (JObj (models (API_CONFIG env_base_url))) (ascii ''defaultLLM'')),
              temperature \<mapsto>
                js_or (get_prop (data config) temperature) (JNum (Finite (7 / 10))),
              top_p \<mapsto>
                js_or (get_prop (data config) top_p) (JNum (Finite (9 / 10))),
              max_tokens \<mapsto>
                js_or (get_prop (data config) max_tokens) (JNum (Finite 2000))))\<rparr>
      else config)"

subsection \<open>The response interceptor\<close>

text \<open>
  A promise settles as resolved with a value, or rejected with \<open>new Error(v)\<close> (kept as the
  argument \<open>v\<close> of the constructor) or with the error object that axios produced.
\<close>

datatype js_error = NewError js_value | Rethrown axios_error

datatype settled = Resolved js_value | Rejected js_error

definition response_fulfilled :: "response \<Rightarrow> settled" where
  "response_fulfilled r =
     (if truthy (js_and (response_data r) (get_prop (response_data r) (ascii ''error''))) then
        Rejected (NewError (get_prop (response_data r) (ascii ''error'')))
      else Resolved (response_data r))"

definition status_message :: "js_value \<Rightarrow> nat \<Rightarrow> js_value" where
  "status_message env_base_url s =
     (let msgs = JObj (errorMessages (API_CONFIG env_base_url)) in
      if s = 400 then
        js_or (get_prop msgs (ascii ''badRequest''))
          (JStr [0x8BF7, 0x6C42, 0x53C2, 0x6570, 0x9519, 0x8BEF, 0xFF0C, 0x8BF7, 0x68C0,
                 0x67E5, 0x8F93, 0x5165])
      else if s = 401 then
        js_or (get_prop msgs (ascii ''unauthorized''))
          (JStr [0x672A, 0x6388, 0x6743, 0xFF0C, 0x8BF7, 0x91CD, 0x65B0, 0x767B, 0x5F55])
      else if s = 403 then
        js_or (get_prop msgs (ascii ''forbidden''))
          (JStr [0x62D2, 0x7EDD, 0x8BBF, 0x95EE, 0xFF0C, 0x8BF7, 0x68C0, 0x67E5, 0x6743,
                 0x9650])
      else if s = 404 then
        js_or (get_prop msgs (ascii ''notFound''))
          (JStr [0x8BF7, 0x6C42, 0x7684, 0x8D44, 0x6E90, 0x4E0D, 0x5B58, 0x5728])
      else if s = 500 then
        js_or (get_prop msgs (ascii ''serverError''))
          (JStr [0x670D, 0x52A1, 0x5668, 0x5185, 0x90E8, 0x9519, 0x8BEF, 0xFF0C, 0x8BF7,
                 0x7A0D, 0x540E, 0x91CD, 0x8BD5])
      else
        js_or (get_prop msgs (ascii ''unknownError''))
          (JStr [0x672A, 0x77E5, 0x9519, 0x8BEF, 0xFF0C, 0x8BF7, 0x7A0D, 0x540E, 0x91CD,
                 0x8BD5]))"

definition response_rejected :: "js_value \<Rightarrow> axios_error \<Rightarrow> settled" where
  "response_rejected env_base_url e =
     (case error_response e of
        Some r \<Rightarrow> Rejected (NewError (status_message env_base_url (status r)))
      | None \<Rightarrow>
          if error_request e then
            Rejected (NewError
              (get_prop (JObj (errorMessages (API_CONFIG env_base_url))) (ascii ''networkError'')))
          else Rejected (Rethrown e))"

subsection \<open>One call through the client\<close>

text \<open>
  \<open>client.post\<close>: the request interceptor, the transport, then the response interceptor. The
  server is given as its behaviour at each attempt (attempt 0 is the first); a call records
  every configuration it hands to the transport. Neither interceptor sends the request
  again, so the transport is entered once. What the interceptors write to the console is
  left out: it changes neither the configuration nor the result. The rejection handler of
  the request interceptor hands its error on unchanged; no interceptor runs before it, so
  it is not entered.
\<close>

record call_result =
  sent :: "request_config list"
  outcome :: settled
  elapsed :: nat

definition client_post ::
  "js_value \<Rightarrow> (nat \<Rightarrow> request_config \<Rightarrow> server_behaviour) \<Rightarrow> js_value \<Rightarrow> js_value
     \<Rightarrow> call_result option" where
  "client_post env_base_url server u d =
     (let config = request_interceptor env_base_url (post_config env_base_url u d) in
      case adapter (cfg_timeout config) (server 0 config) of
        None \<Rightarrow> None
      | Some (Answered r, ms) \<Rightarrow>
          Some \<lparr>sent = [config], outcome = response_fulfilled r, elapsed = ms\<rparr>
      | Some (Failed e, ms) \<Rightarrow>
          Some \<lparr>sent = [config], outcome = response_rejected env_base_url e, elapsed = ms\<rparr>)"

section \<open>The services: api/services\<close>

text \<open>
  Each service posts the object \<open>{text, options}\<close> to its endpoint through the client; none
  of them looks at the text.
\<close>

definition nerService_recognize ::
  "js_value \<Rightarrow> (nat \<Rightarrow> request_config \<Rightarrow> server_behaviour) \<Rightarrow> js_value \<Rightarrow> js_value
     \<Rightarrow> call_result option" where
  "nerService_recognize env_base_url server text_arg options =
     client_post env_base_url server
       (get_prop (JObj (endpoints (API_CONFIG env_base_url))) (ascii ''ner''))
       (JObj [ascii ''text'' \<mapsto> text_arg, ascii ''options'' \<mapsto> options])"

definition stdService_standardize ::
  "js_value \<Rightarrow> (nat \<Rightarrow> request_config \<Rightarrow> server_behaviour) \<Rightarrow> js_value \<Rightarrow> js_value
     \<Rightarrow> call_result option" where
  "stdService_standardize env_base_url server text_arg options =
     client_post env_base_url server
       (get_prop (JObj (endpoints (API_CONFIG env_base_url))) (ascii ''std''))
       (JObj [ascii ''text'' \<mapsto> text_arg, ascii ''options'' \<mapsto> options])"

definition abbrService_expand ::
  "js_value \<Rightarrow> (nat \<Rightarrow> request_config \<Rightarrow> server_behaviour) \<Rightarrow> js_value \<Rightarrow> js_value
     \<Rightarrow> call_result option" where
  "abbrService_expand env_base_url server text_arg options =
     client_post env_base_url server
       (get_prop (JObj (endpoints (API_CONFIG env_base_url))) (ascii ''abbr''))
       (JObj [ascii ''text'' \<mapsto> text_arg, ascii ''options'' \<mapsto> options])"

definition corrService_correct ::
  "js_value \<Rightarrow> (nat \<Rightarrow> request_config \<Rightarrow> server_behaviour) \<Rightarrow> js_value \<Rightarrow> js_value
     \<Rightarrow> call_result option" where
  "corrService_correct env_base_url server text_arg options =
     client_post env_base_url server
       (get_prop (JObj (endpoints (API_CONFIG env_base_url))) (ascii ''corr''))
       (JObj [ascii ''text'' \<mapsto> text_arg, ascii ''options'' \<mapsto> options])"

definition genService_generate ::
  "js_value \<Rightarrow> (nat \<Rightarrow> request_config \<Rightarrow> server_behaviour) \<Rightarrow> js_value \<Rightarrow> js_value
     \<Rightarrow> call_result option" where
  "genService_generate env_base_url server text_arg options =
     client_post env_base_url server
       (get_prop (JObj (endpoints (API_CONFIG env_base_url))) (ascii ''gen''))
       (JObj [ascii ''text'' \<mapsto> text_arg, ascii ''options'' \<mapsto> options])"

section \<open>Blank text\<close>

text \<open>
  \<open>String.prototype.trim\<close> removes white space and line terminators from both ends: TAB, LF,
  VT, FF, CR, SPACE, NBSP, the other space separators of Unicode, LS, PS and the byte order
  mark.
\<close>

definition is_white_space :: "code_unit \<Rightarrow> bool" where
  "is_white_space c \<longleftrightarrow>
     c \<in> set [0x0009, 0x000A, 0x000B, 0x000C, 0x000D, 0x0020, 0x00A0, 0x1680,
              0x2000, 0x2001, 0x2002, 0x2003, 0x2004, 0x2005, 0x2006, 0x2007, 0x2008,
              0x2009, 0x200A, 0x2028, 0x2029, 0x202F, 0x205F, 0x3000, 0xFEFF]"

definition trim :: "js_string \<Rightarrow> js_string" where
  "trim s = rev (dropWhile is_white_space (rev (dropWhile is_white_space s)))"

section \<open>The options panel: components/panels/ModelOptionsPanel\<close>

text \<open>\<open>handleChange\<close> reads \<open>name\<close> and \<open>value\<close> off the input that changed.\<close>

definition handleChange :: "js_string \<Rightarrow> js_string \<Rightarrow> app_state \<Rightarrow> app_state" where
  "handleChange name val state = setModelOptions (JObj [name \<mapsto> JStr val]) state"

text \<open>The panel renders three inputs, named as below.\<close>

datatype panel_input = ModelInput | EmbeddingModelInput | DbNameInput

fun input_name :: "panel_input \<Rightarrow> js_string" where
  "input_name ModelInput = ascii ''model''"
| "input_name EmbeddingModelInput = ascii ''embeddingModel''"
| "input_name DbNameInput = ascii ''dbName''"

definition recognized_options :: "js_string set" where
  "recognized_options = {ascii ''model'', ascii ''embeddingModel'', ascii ''dbName''}"

section \<open>The term standardization engine\<close>

text \<open>
  The engine itself (the standardization service, its vector index and its metadata store)
  is not among the sources, which hold its callers only. Each definition of this section is
  written from the specification.
\<close>

text \<open>Modelled from the spec: the error taxonomy of the engine, which the sources lack.\<close>

datatype engine_error =
    EmptyInput
  | EmptyField
  | InvalidCategory
  | DimensionMismatch
  | EmbeddingUnavailable
  | NotFound
  | IndexCorruption

text \<open>Modelled from the spec: the closed classification set of a term, absent from the sources.\<close>

datatype category = Company | Stock | Fund | Bond | Currency | Index | Sector | FinancialTerm

text \<open>
  Modelled from the spec: the Term of the data model, absent from the sources; a
  \<open>vector_position\<close> exists only while the term is indexed.
\<close>

record term_row =
  term_id :: nat
  term_name :: js_string
  term_category :: category
  term_definition :: "js_string option"
  created_at :: nat
  vector_position :: "nat option"

text \<open>
  Modelled from the spec: the fixed-dimension vector that the absent EmbeddingProvider
  returns. The floating-point components are taken as the reals they denote.
\<close>

type_synonym embedding = "real list"

text \<open>Modelled from the spec: the VectorRecord of the data model, absent from the sources.\<close>

record vector_record =
  vector :: embedding
  owner_term_id :: nat

text \<open>
  Modelled from the spec: the VectorIndex, absent from the sources, as its sequence of slots;
  \<open>None\<close> is a tombstoned slot.
\<close>

type_synonym vector_index = "vector_record option list"

text \<open>
  Modelled from the spec: the MetadataStore, absent from the sources, as its \<open>getById\<close>;
  \<open>None\<close> is NotFound.
\<close>

type_synonym metadata_store = "nat \<Rightarrow> term_row option"

text \<open>
  Modelled from the spec: the metric of the absent VectorIndex, cosine similarity, 1 for the
  same direction and -1 for the opposite one.
\<close>

definition cosine_similarity :: "embedding \<Rightarrow> embedding \<Rightarrow> real" where
  "cosine_similarity a b =
     (\<Sum>(x, y) \<leftarrow> zip a b. x * y) / (sqrt (\<Sum>x \<leftarrow> a. x * x) * sqrt (\<Sum>y \<leftarrow> b. y * y))"

text \<open>
  Modelled from the spec: the active slots of the absent VectorIndex, each with its
  position; tombstoned slots are excluded.
\<close>

definition active_slots :: "vector_index \<Rightarrow> (nat \<times> vector_record) list" where
  "active_slots idx =
     List.map_filter (\<lambda>(p, slot). map_option (Pair p) slot) (zip [0..<length idx] idx)"

text \<open>
  Modelled from the spec: \<open>VectorIndex.search(queryVector, k)\<close>, absent from the sources: up
  to \<open>k\<close> nearest active vectors as (position, similarityScore), by descending score, ties
  in score by ascending term id; all of them when fewer than \<open>k\<close> are active.
\<close>

definition search ::
  "(embedding \<Rightarrow> embedding \<Rightarrow> real) \<Rightarrow> vector_index \<Rightarrow> embedding \<Rightarrow> nat \<Rightarrow> (nat \<times> real) list" where
  "search sim idx q k =
     map (\<lambda>(p, r). (p, sim q (vector r)))
       (take k
          (sort_key (\<lambda>(p, r). (- sim q (vector r), owner_term_id r)) (active_slots idx)))"

text \<open>
  Modelled from the spec: a candidate \<open>{term, score}\<close> of the absent
  \<open>TermStandardizer.standardize\<close>.
\<close>

record candidate =
  cand_term :: term_row
  score :: real

text \<open>
  Modelled from the spec: resolving a position's owning term through the MetadataStore, a
  step of the absent \<open>TermStandardizer.standardize\<close>. A position with no active vector or an
  owner with no row is the inconsistency that the spec calls IndexCorruption.
\<close>

definition resolve ::
  "vector_index \<Rightarrow> metadata_store \<Rightarrow> nat \<times> real \<Rightarrow> engine_error + candidate" where
  "resolve idx store h =
     (case (if fst h < length idx then idx ! fst h else None) of
        None \<Rightarrow> Inl IndexCorruption
      | Some r \<Rightarrow>
          (case store (owner_term_id r) of
             None \<Rightarrow> Inl IndexCorruption
           | Some t \<Rightarrow> Inr \<lparr>cand_term = t, score = snd h\<rparr>))"

text \<open>
  Modelled from the spec: resolving every candidate of a search in turn, a step of the absent
  \<open>TermStandardizer.standardize\<close>; the first failure is the failure of the whole.
\<close>

fun resolve_all ::
  "vector_index \<Rightarrow> metadata_store \<Rightarrow> (nat \<times> real) list \<Rightarrow> engine_error + candidate list" where
  "resolve_all idx store [] = Inr []"
| "resolve_all idx store (h # hs) =
     (case resolve idx store h of
        Inl e \<Rightarrow> Inl e
      | Inr c \<Rightarrow>
          (case resolve_all idx store hs of
             Inl e \<Rightarrow> Inl e
           | Inr cs \<Rightarrow> Inr (c # cs)))"

text \<open>
  Modelled from the spec: the order of the results of the absent
  \<open>TermStandardizer.standardize\<close>, descending score and then ascending term id.
\<close>

definition rank :: "candidate \<Rightarrow> real \<times> nat" where
  "rank c = (- score c, term_id (cand_term c))"

text \<open>
  Modelled from the spec: \<open>TermStandardizer.standardize(text, topK, similarityThreshold)\<close>,
  absent from the sources. Its steps: reject empty or whitespace-only input with EmptyInput;
  call the embedding provider (a parameter, which may fail); search the index for \<open>topK\<close>
  candidates; resolve each position's owning term; filter out the candidates whose score is
  below the threshold; return the remainder by descending score, ties by ascending term id.
\<close>

definition standardize ::
  "(js_string \<Rightarrow> engine_error + embedding) \<Rightarrow> (embedding \<Rightarrow> embedding \<Rightarrow> real) \<Rightarrow>
     vector_index \<Rightarrow> metadata_store \<Rightarrow> js_string \<Rightarrow> nat \<Rightarrow> real \<Rightarrow>
     engine_error + candidate list" where
  "standardize provider sim idx store text_arg topK similarityThreshold =
     (if trim text_arg = [] then Inl EmptyInput
      else
        case provider text_arg of
          Inl e \<Rightarrow> Inl e
        | Inr v \<Rightarrow>
            (case resolve_all idx store (search sim idx v topK) of
               Inl e \<Rightarrow> Inl e
             | Inr cands \<Rightarrow>
                 Inr (sort_key rank (filter (\<lambda>c. similarityThreshold \<le> score c) cands))))"

text \<open>
  Modelled from the spec: the batch mode of the absent \<open>TermStandardizer\<close>: one result per
  input text, in the order of the inputs; an item that fails carries its failure and the
  items after it are still processed.
\<close>

fun standardize_batch ::
  "(js_string \<Rightarrow> engine_error + embedding) \<Rightarrow> (embedding \<Rightarrow> embedding \<Rightarrow> real) \<Rightarrow>
     vector_index \<Rightarrow> metadata_store \<Rightarrow> js_string list \<Rightarrow> nat \<Rightarrow> real \<Rightarrow>
     (engine_error + candidate list) list" where
  "standardize_batch provider sim idx store [] topK similarityThreshold = []"
| "standardize_batch provider sim idx store (t # ts) topK similarityThreshold =
     standardize provider sim idx store t topK similarityThreshold
       # standardize_batch provider sim idx store ts topK similarityThreshold"

text \<open>
  Modelled from the spec: the absent \<open>TermStandardizer.standardize\<close> once more, paired with
  the requests that it issues to the embedding provider, in the order of its steps: the
  check for empty or whitespace-only input comes first and issues none; the call of the
  provider issues one, for the text.
\<close>

definition standardize_logged ::
  "(js_string \<Rightarrow> engine_error + embedding) \<Rightarrow> (embedding \<Rightarrow> embedding \<Rightarrow> real) \<Rightarrow>
     vector_index \<Rightarrow> metadata_store \<Rightarrow> js_string \<Rightarrow> nat \<Rightarrow> real \<Rightarrow>
     js_string list \<times> (engine_error + candidate list)" where
  "standardize_logged provider sim idx store text_arg topK similarityThreshold =
     (if trim text_arg = [] then ([], Inl EmptyInput)
      else
        ([text_arg],
         case provider text_arg of
           Inl e \<Rightarrow> Inl e
         | Inr v \<Rightarrow>
             (case resolve_all idx store (search sim idx v topK) of
                Inl e \<Rightarrow> Inl e
              | Inr cands \<Rightarrow>
                  Inr (sort_key rank (filter (\<lambda>c. similarityThreshold \<le> score c) cands)))))"

text \<open>
  Modelled from the spec: the owner of the vector in a slot of the absent VectorIndex, the
  \<open>owner_term_id\<close> of its VectorRecord; a tombstoned slot has none.
\<close>

definition owner_of :: "vector_index \<Rightarrow> nat \<Rightarrow> nat option" where
  "owner_of idx p = (if p < length idx then map_option owner_term_id (idx ! p) else None)"

text \<open>
  Modelled from the spec: the invariant of the data model, absent from the sources, that
  every indexed vector has its owning Term (no orphan vectors).
\<close>

definition every_vector_owned :: "vector_index \<Rightarrow> metadata_store \<Rightarrow> bool" where
  "every_vector_owned idx store =
     list_all
       (\<lambda>slot. case slot of
                 None \<Rightarrow> True
               | Some r \<Rightarrow> (case store (owner_term_id r) of None \<Rightarrow> False | Some t \<Rightarrow> True))
       idx"

text \<open>
  Modelled from the spec: the stock term of the vocabulary of its scenarios (name 0x80A1
  0x7968, category STOCK), which the sources lack.
\<close>

definition stock_term :: term_row where
  "stock_term =
     \<lparr> term_id = 1, term_name = [0x80A1, 0x7968], term_category = Stock,
       term_definition = None, created_at = 0, vector_position = Some 0 \<rparr>"

text \<open>
  Modelled from the spec: the bond term of the vocabulary of its scenarios (name 0x503A
  0x5238, category BOND), which the sources lack.
\<close>

definition bond_term :: term_row where
  "bond_term =
     \<lparr> term_id = 2, term_name = [0x503A, 0x5238], term_category = Bond,
       term_definition = None, created_at = 0, vector_position = Some 2 \<rparr>"

text \<open>
  Modelled from the spec: an index state for the vocabulary of the scenarios, with the two
  terms around a tombstoned slot; the sources have no index.
\<close>

definition scenario_index :: vector_index where
  "scenario_index =
     [Some \<lparr>vector = [1, 0], owner_term_id = 1\<rparr>, None,
      Some \<lparr>vector = [0, 1], owner_term_id = 2\<rparr>]"

text \<open>
  Modelled from the spec: the metadata store for the vocabulary of the scenarios; the
  sources have no store.
\<close>

definition scenario_store :: metadata_store where
  "scenario_store = [1 \<mapsto> stock_term, 2 \<mapsto> bond_term]"

text \<open>
  Modelled from the spec: an embedding provider for the scenarios, absent from the sources:
  it fails on the text 0x503A, places the query 0x80A1 0x5E02 (stock market) at similarity
  0.8 to the stock term and 0.6 to the bond term, and any other text on the bond term.
\<close>

definition scenario_provider :: "js_string \<Rightarrow> engine_error + embedding" where
  "scenario_provider t =
     (if t = [0x503A] then Inl EmbeddingUnavailable
      else if t = [0x80A1, 0x5E02] then Inr [4 / 5, 3 / 5]
      else Inr [0, 1])"

section \<open>The reducer\<close>

lemma action_types_distinct:
  "SET_MODEL_OPTIONS \<noteq> SET_LOADING" "SET_MODEL_OPTIONS \<noteq> SET_ERROR"
  "SET_MODEL_OPTIONS \<noteq> CLEAR_ERROR" "SET_LOADING \<noteq> SET_ERROR"
  "SET_LOADING \<noteq> CLEAR_ERROR" "SET_ERROR \<noteq> CLEAR_ERROR"
  by (simp_all add: SET_MODEL_OPTIONS_def SET_LOADING_def SET_ERROR_def CLEAR_ERROR_def ascii_def)

lemma reducer_SET_MODEL_OPTIONS:
  "action_type a = SET_MODEL_OPTIONS \<Longrightarrow>
     reducer s a = s\<lparr>modelOptions := modelOptions s ++ own_props (payload a)\<rparr>"
  by (simp add: reducer_def spread_def)

lemma reducer_SET_LOADING:
  "action_type a = SET_LOADING \<Longrightarrow> reducer s a = s\<lparr>loading := payload a\<rparr>"
  using action_types_distinct by (simp add: reducer_def)

lemma reducer_SET_ERROR:
  "action_type a = SET_ERROR \<Longrightarrow> reducer s a = s\<lparr>error := payload a\<rparr>"
  using action_types_distinct by (simp add: reducer_def)

lemma reducer_CLEAR_ERROR:
  "action_type a = CLEAR_ERROR \<Longrightarrow> reducer s a = s\<lparr>error := JNull\<rparr>"
  using action_types_distinct by (simp add: reducer_def)

lemma reducer_default:
  "action_type a \<notin> {SET_MODEL_OPTIONS, SET_LOADING, SET_ERROR, CLEAR_ERROR} \<Longrightarrow>
     reducer s a = s"
  by (simp add: reducer_def)

text \<open>
  C10. For every state and every action the reducer changes only the field the action
  targets: \<open>SET_LOADING\<close>, \<open>SET_ERROR\<close> and \<open>CLEAR_ERROR\<close> leave \<open>modelOptions\<close> (and the other
  of \<open>loading\<close> and \<open>error\<close>) as they were, \<open>SET_MODEL_OPTIONS\<close> leaves \<open>loading\<close> and \<open>error\<close> as
  they were, and an action of any other type returns the state unchanged.
\<close>

theorem reducer_frame:
  "(action_type a = SET_LOADING \<longrightarrow>
      modelOptions (reducer s a) = modelOptions s \<and> error (reducer s a) = error s \<and>
      loading (reducer s a) = payload a) \<and>
   (action_type a = SET_ERROR \<longrightarrow>
      modelOptions (reducer s a) = modelOptions s \<and> loading (reducer s a) = loading s \<and>
      error (reducer s a) = payload a) \<and>
   (action_type a = CLEAR_ERROR \<longrightarrow>
      modelOptions (reducer s a) = modelOptions s \<and> loading (reducer s a) = loading s \<and>
      error (reducer s a) = JNull) \<and>
   (action_type a = SET_MODEL_OPTIONS \<longrightarrow>
      loading (reducer s a) = loading s \<and> error (reducer s a) = error s \<and>
      modelOptions (reducer s a) = spread (modelOptions s) (payload a)) \<and>
   (action_type a \<notin> {SET_MODEL_OPTIONS, SET_LOADING, SET_ERROR, CLEAR_ERROR} \<longrightarrow>
      reducer s a = s)"
  by (simp add: reducer_SET_LOADING reducer_SET_ERROR reducer_CLEAR_ERROR
      reducer_SET_MODEL_OPTIONS reducer_default spread_def)

theorem reducer_frame_witness:
  "(let s = \<lparr>modelOptions = [ascii ''model'' \<mapsto> JStr (ascii ''glm-4'')],
              loading = JBool True, error = JStr (ascii ''boom'')\<rparr>
    in modelOptions (reducer s \<lparr>action_type = SET_LOADING, payload = JBool False\<rparr>) = modelOptions s
     \<and> error (reducer s \<lparr>action_type = SET_LOADING, payload = JBool False\<rparr>) = JStr (ascii ''boom'')
     \<and> loading (reducer s \<lparr>action_type = SET_LOADING, payload = JBool False\<rparr>) = JBool False
     \<and> modelOptions (reducer s \<lparr>action_type = SET_ERROR, payload = JStr (ascii ''x'')\<rparr>) = modelOptions s
     \<and> loading (reducer s \<lparr>action_type = SET_ERROR, payload = JStr (ascii ''x'')\<rparr>) = JBool True
     \<and> modelOptions (reducer s \<lparr>action_type = CLEAR_ERROR, payload = JUndefined\<rparr>) = modelOptions s
     \<and> error (reducer s \<lparr>action_type = CLEAR_ERROR, payload = JUndefined\<rparr>) = JNull
     \<and> loading (reducer s \<lparr>action_type = SET_MODEL_OPTIONS,
           payload = JObj [ascii ''dbName'' \<mapsto> JStr (ascii ''db2'')]\<rparr>) = JBool True
     \<and> error (reducer s \<lparr>action_type = SET_MODEL_OPTIONS,
           payload = JObj [ascii ''dbName'' \<mapsto> JStr (ascii ''db2'')]\<rparr>) = JStr (ascii ''boom'')
     \<and> ascii ''RESET'' \<notin> {SET_MODEL_OPTIONS, SET_LOADING, SET_ERROR, CLEAR_ERROR}
     \<and> reducer s \<lparr>action_type = ascii ''RESET'', payload = JNull\<rparr> = s)"
proof -
  let ?s = "\<lparr>modelOptions = [ascii ''model'' \<mapsto> JStr (ascii ''glm-4'')],
              loading = JBool True, error = JStr (ascii ''boom'')\<rparr>"
  have other: "ascii ''RESET'' \<notin> {SET_MODEL_OPTIONS, SET_LOADING, SET_ERROR, CLEAR_ERROR}"
    by (simp add: SET_MODEL_OPTIONS_def SET_LOADING_def SET_ERROR_def CLEAR_ERROR_def ascii_def)
  show ?thesis
    using other
      reducer_frame [of "\<lparr>action_type = SET_LOADING, payload = JBool False\<rparr>" ?s]
      reducer_frame [of "\<lparr>action_type = SET_ERROR, payload = JStr (ascii ''x'')\<rparr>" ?s]
      reducer_frame [of "\<lparr>action_type = CLEAR_ERROR, payload = JUndefined\<rparr>" ?s]
      reducer_frame [of "\<lparr>action_type = SET_MODEL_OPTIONS,
           payload = JObj [ascii ''dbName'' \<mapsto> JStr (ascii ''db2'')]\<rparr>" ?s]
      reducer_frame [of "\<lparr>action_type = ascii ''RESET'', payload = JNull\<rparr>" ?s]
    by (simp add: Let_def)
qed

section \<open>The model options\<close>

lemma dom_spread: "dom (spread obj v) = dom obj \<union> dom (own_props v)"
  by (auto simp: spread_def)

lemma modelOptions_setModelOptions:
  "modelOptions (setModelOptions p s) = spread (modelOptions s) p"
  by (simp add: setModelOptions_def reducer_SET_MODEL_OPTIONS spread_def)

lemma dom_initial_options: "dom (modelOptions initialState) = recognized_options"
  by (auto simp: initialState_def recognized_options_def split: if_splits)

lemma input_name_recognized: "input_name i \<in> recognized_options"
  by (cases i) (simp_all add: recognized_options_def)

text \<open>
  C4, as the code has it. The options are a dynamic object: it starts with exactly the keys
  \<open>model\<close>, \<open>embeddingModel\<close> and \<open>dbName\<close>, nothing validates it, and \<open>SET_MODEL_OPTIONS\<close>
  merges the payload into it, so that the keys after an update are the keys before it
  together with the keys of the payload. An update whose payload has recognized keys only,
  such as every change made through the three inputs of the options panel, keeps the keys
  within the recognized ones.
\<close>

theorem model_options_keys:
  "dom (modelOptions initialState) = recognized_options \<and>
   dom (modelOptions (reducer s \<lparr>action_type = SET_MODEL_OPTIONS, payload = p\<rparr>)) =
     dom (modelOptions s) \<union> dom (own_props p) \<and>
   (dom (modelOptions s) \<subseteq> recognized_options \<and> dom (own_props p) \<subseteq> recognized_options \<longrightarrow>
      dom (modelOptions (reducer s \<lparr>action_type = SET_MODEL_OPTIONS, payload = p\<rparr>))
        \<subseteq> recognized_options) \<and>
   (dom (modelOptions s) \<subseteq> recognized_options \<longrightarrow>
      dom (modelOptions (handleChange (input_name i) v s)) \<subseteq> recognized_options)"
proof -
  have upd: "dom (modelOptions (reducer s \<lparr>action_type = SET_MODEL_OPTIONS, payload = p\<rparr>)) =
      dom (modelOptions s) \<union> dom (own_props p)"
    by (simp add: reducer_SET_MODEL_OPTIONS Un_commute)
  have panel: "dom (modelOptions (handleChange (input_name i) v s)) =
      insert (input_name i) (dom (modelOptions s))"
    by (simp add: handleChange_def modelOptions_setModelOptions dom_spread)
  show ?thesis
    using upd panel dom_initial_options input_name_recognized [of i] by auto
qed

theorem model_options_keys_witness:
  "dom (modelOptions initialState) \<subseteq> recognized_options \<and>
   dom (own_props (JObj [ascii ''dbName'' \<mapsto> JStr (ascii ''terms_v2'')])) \<subseteq> recognized_options \<and>
   dom (modelOptions (reducer initialState
     \<lparr>action_type = SET_MODEL_OPTIONS,
      payload = JObj [ascii ''dbName'' \<mapsto> JStr (ascii ''terms_v2'')]\<rparr>)) \<subseteq> recognized_options \<and>
   dom (modelOptions (handleChange (input_name ModelInput) (ascii ''glm-4'') initialState))
     \<subseteq> recognized_options"
proof -
  have a: "dom (modelOptions initialState) \<subseteq> recognized_options"
    by (simp add: dom_initial_options)
  have b: "dom (own_props (JObj [ascii ''dbName'' \<mapsto> JStr (ascii ''terms_v2'')]))
      \<subseteq> recognized_options"
    by (simp add: recognized_options_def)
  show ?thesis
    using a b
      model_options_keys [of initialState "JObj [ascii ''dbName'' \<mapsto> JStr (ascii ''terms_v2'')]"
        ModelInput "ascii ''glm-4''"]
    by blast
qed

text \<open>
  C4, as stated, fails: an update whose payload carries the key \<open>foo\<close> puts that key into
  the options.
\<close>

theorem model_options_unrecognized_key_counterexample:
  "dom (modelOptions initialState) \<subseteq> recognized_options \<and>
   ascii ''foo'' \<notin> recognized_options \<and>
   ascii ''foo'' \<in> dom (modelOptions (reducer initialState
     \<lparr>action_type = SET_MODEL_OPTIONS,
      payload = JObj [ascii ''foo'' \<mapsto> JStr (ascii ''bar'')]\<rparr>))"
  by (simp add: dom_initial_options reducer_SET_MODEL_OPTIONS recognized_options_def ascii_def)

section \<open>The HTTP client and its interceptors\<close>

lemma truthy_get_prop: "truthy (get_prop v k) \<Longrightarrow> truthy v"
  by (cases v) simp_all

lemma request_keys_distinct:
  "model_name \<noteq> temperature" "model_name \<noteq> top_p" "model_name \<noteq> max_tokens"
  "temperature \<noteq> top_p" "temperature \<noteq> max_tokens" "top_p \<noteq> max_tokens"
  by (simp_all add: model_name_def temperature_def top_p_def max_tokens_def ascii_def)

lemma default_model: 
  "get_prop (JObj (models (API_CONFIG env))) (ascii ''defaultLLM'') = JStr (ascii ''glm-4-plus'')"
  by (simp add: API_CONFIG_def ascii_def)

lemma network_error_message:
  "get_prop (JObj (errorMessages (API_CONFIG env))) (ascii ''networkError'') =
     JStr [0x7F51, 0x7EDC, 0x8FDE, 0x63A5, 0x5931, 0x8D25, 0xFF0C, 0x8BF7, 0x68C0,
           0x67E5, 0x7F51, 0x7EDC, 0x8BBE, 0x7F6E]"
  by (simp add: API_CONFIG_def ascii_def)

lemma request_interceptor_timeout:
  "cfg_timeout (request_interceptor env (post_config env u d)) = 30000"
  by (simp add: request_interceptor_def post_config_def API_CONFIG_def)

lemma request_interceptor_falsy:
  "\<not> truthy (data config) \<Longrightarrow> request_interceptor env config = config"
  by (simp add: request_interceptor_def)

lemma request_interceptor_truthy:
  "truthy (data config) \<Longrightarrow>
     request_interceptor env config =
       config\<lparr>data := JObj
         ((own_props (data config))
            (model_name \<mapsto> js_or (get_prop (data config) model_name) (JStr (ascii ''glm-4-plus'')),
             temperature \<mapsto> js_or (get_prop (data config) temperature) (JNum (Finite (7 / 10))),
             top_p \<mapsto> js_or (get_prop (data config) top_p) (JNum (Finite (9 / 10))),
             max_tokens \<mapsto> js_or (get_prop (data config) max_tokens) (JNum (Finite 2000))))\<rparr>"
  using default_model [of env] by (simp add: request_interceptor_def spread_def)

lemma adapter_timeout:
  "t \<noteq> 0 \<Longrightarrow> \<not> settles_within t b \<Longrightarrow> adapter t b = Some (Failed no_response_error, t)"
  by (cases b) auto

lemma adapter_settles:
  "t \<noteq> 0 \<Longrightarrow> \<exists>r ms. adapter t b = Some (r, ms) \<and> ms \<le> t"
  by (cases b) auto

lemma response_rejected_no_response:
  "response_rejected env no_response_error =
     Rejected (NewError (get_prop (JObj (errorMessages (API_CONFIG env))) (ascii ''networkError'')))"
  by (simp add: response_rejected_def no_response_error_def)

lemma response_fulfilled_no_error:
  "response_fulfilled r = Resolved v \<Longrightarrow>
     v = response_data r \<and> \<not> truthy (get_prop v (ascii ''error''))"
  by (auto simp: response_fulfilled_def js_and_def split: if_splits dest: truthy_get_prop)

lemma response_rejected_never_resolves: "response_rejected env e \<noteq> Resolved v"
  by (simp add: response_rejected_def split: option.splits)

lemma client_post_cases:
  assumes "cfg = request_interceptor env (post_config env u d)"
  shows "\<exists>tr ms. adapter 30000 (server 0 cfg) = Some (tr, ms) \<and> ms \<le> 30000 \<and>
           client_post env server u d =
             Some \<lparr>sent = [cfg],
                   outcome = (case tr of Answered r \<Rightarrow> response_fulfilled r
                                       | Failed e \<Rightarrow> response_rejected env e),
                   elapsed = ms\<rparr>"
proof -
  obtain tr ms where a: "adapter 30000 (server 0 cfg) = Some (tr, ms)" and b: "ms \<le> 30000"
    using adapter_settles [of 30000 "server 0 cfg"] by auto
  have "client_post env server u d =
          Some \<lparr>sent = [cfg],
                outcome = (case tr of Answered r \<Rightarrow> response_fulfilled r
                                    | Failed e \<Rightarrow> response_rejected env e),
                elapsed = ms\<rparr>"
    using a assms request_interceptor_timeout [of env u d]
    by (cases tr) (simp_all add: client_post_def Let_def)
  with a b show ?thesis by blast
qed

lemma client_post_answer:
  assumes "server 0 (request_interceptor env (post_config env u d)) = Replies ms s body"
    and "ms \<le> 30000"
  shows "map_option outcome (client_post env server u d) =
           Some (if validateStatus s then response_fulfilled \<lparr>status = s, response_data = body\<rparr>
                 else Rejected (NewError (status_message env s)))"
  using assms
  by (simp add: client_post_def Let_def request_interceptor_timeout response_rejected_def)

text \<open>
  C8, as the code has it. For every response with a status in 200..299 (the responses that
  axios hands to the success handler): if the body has a truthy \<open>error\<close> field, the promise
  rejects with an error made from that field, although the status says success; otherwise
  it resolves to the body itself, without the transport envelope. A response with any other
  status rejects with the message of its status, whatever its body holds. So a caller never
  sees a resolved value with a truthy \<open>error\<close> field.
\<close>

theorem response_error_field_by_status:
  "(truthy (get_prop (response_data r) (ascii ''error'')) \<longrightarrow>
      response_fulfilled r = Rejected (NewError (get_prop (response_data r) (ascii ''error'')))) \<and>
   (\<not> truthy (get_prop (response_data r) (ascii ''error'')) \<longrightarrow>
      response_fulfilled r = Resolved (response_data r)) \<and>
   (server 0 (request_interceptor env (post_config env u d)) = Replies ms s body \<and>
    ms \<le> 30000 \<and> validateStatus s \<and> truthy (get_prop body (ascii ''error'')) \<longrightarrow>
      map_option outcome (client_post env server u d) =
        Some (Rejected (NewError (get_prop body (ascii ''error''))))) \<and>
   (server 0 (request_interceptor env (post_config env u d)) = Replies ms s body \<and>
    ms \<le> 30000 \<and> validateStatus s \<and> \<not> truthy (get_prop body (ascii ''error'')) \<longrightarrow>
      map_option outcome (client_post env server u d) = Some (Resolved body)) \<and>
   (server 0 (request_interceptor env (post_config env u d)) = Replies ms s body \<and>
    ms \<le> 30000 \<and> \<not> validateStatus s \<longrightarrow>
      map_option outcome (client_post env server u d) =
        Some (Rejected (NewError (status_message env s)))) \<and>
   (client_post env server u d = Some res \<and> outcome res = Resolved v \<longrightarrow>
      \<not> truthy (get_prop v (ascii ''error'')))"
proof -
  let ?cfg = "request_interceptor env (post_config env u d)"
  have rej: "response_fulfilled r = Rejected (NewError (get_prop (response_data r) (ascii ''error'')))"
    if "truthy (get_prop (response_data r) (ascii ''error''))" for r
    using that truthy_get_prop [OF that] by (simp add: response_fulfilled_def js_and_def)
  have res: "response_fulfilled r = Resolved (response_data r)"
    if "\<not> truthy (get_prop (response_data r) (ascii ''error''))" for r
    using that by (simp add: response_fulfilled_def js_and_def)
  have ok: "map_option outcome (client_post env server u d) =
        Some (Rejected (NewError (get_prop body (ascii ''error''))))"
    if "server 0 ?cfg = Replies ms s body" "ms \<le> 30000" "validateStatus s"
       "truthy (get_prop body (ascii ''error''))"
    using client_post_answer [of server env u d ms s body] that
      rej [of "\<lparr>status = s, response_data = body\<rparr>"]
    by simp
  have plain: "map_option outcome (client_post env server u d) = Some (Resolved body)"
    if "server 0 ?cfg = Replies ms s body" "ms \<le> 30000" "validateStatus s"
       "\<not> truthy (get_prop body (ascii ''error''))"
    using client_post_answer [of server env u d ms s body] that
      res [of "\<lparr>status = s, response_data = body\<rparr>"]
    by simp
  have bad: "map_option outcome (client_post env server u d) =
        Some (Rejected (NewError (status_message env s)))"
    if "server 0 ?cfg = Replies ms s body" "ms \<le> 30000" "\<not> validateStatus s"
    using client_post_answer [of server env u d ms s body] that by simp
  have never: "\<not> truthy (get_prop v (ascii ''error''))"
    if "client_post env server u d = Some res" "outcome res = Resolved v"
  proof -
    obtain tr t where
      "client_post env server u d =
         Some \<lparr>sent = [?cfg],
               outcome = (case tr of Answered r \<Rightarrow> response_fulfilled r
                                   | Failed e \<Rightarrow> response_rejected env e),
               elapsed = t\<rparr>"
      using client_post_cases [of ?cfg env u d server] by blast
    with that have
      "(case tr of Answered r \<Rightarrow> response_fulfilled r | Failed e \<Rightarrow> response_rejected env e)
         = Resolved v"
      by auto
    then show ?thesis
      by (cases tr) (auto dest: response_fulfilled_no_error simp: response_rejected_never_resolves)
  qed
  show ?thesis
    using rej [of r] res [of r] ok plain bad never by blast
qed

theorem response_error_field_by_status_witness:
  "response_fulfilled
     \<lparr>status = 200, response_data = JObj [ascii ''error'' \<mapsto> JStr (ascii ''bad input'')]\<rparr> =
     Rejected (NewError (JStr (ascii ''bad input''))) \<and>
   response_fulfilled
     \<lparr>status = 200, response_data = JObj [ascii ''result'' \<mapsto> JStr (ascii ''ok'')]\<rparr> =
     Resolved (JObj [ascii ''result'' \<mapsto> JStr (ascii ''ok'')]) \<and>
   validateStatus 200 \<and> \<not> validateStatus 500 \<and>
   map_option outcome
     (client_post JUndefined
        (\<lambda>n c. Replies 120 200 (JObj [ascii ''error'' \<mapsto> JStr (ascii ''bad input'')]))
        (JStr (ascii ''/api/std'')) JUndefined) =
     Some (Rejected (NewError (JStr (ascii ''bad input'')))) \<and>
   map_option outcome
     (client_post JUndefined
        (\<lambda>n c. Replies 120 200 (JObj [ascii ''result'' \<mapsto> JStr (ascii ''ok'')]))
        (JStr (ascii ''/api/std'')) JUndefined) =
     Some (Resolved (JObj [ascii ''result'' \<mapsto> JStr (ascii ''ok'')])) \<and>
   map_option outcome
     (client_post JUndefined
        (\<lambda>n c. Replies 120 500 (JObj [ascii ''error'' \<mapsto> JStr (ascii ''bad input'')]))
        (JStr (ascii ''/api/std'')) JUndefined) =
     Some (Rejected (NewError (status_message JUndefined 500))) \<and>
   \<not> truthy (get_prop (JObj [ascii ''result'' \<mapsto> JStr (ascii ''ok'')]) (ascii ''error''))"
proof -
  let ?bad = "JObj [ascii ''error'' \<mapsto> JStr (ascii ''bad input'')]"
  let ?good = "JObj [ascii ''result'' \<mapsto> JStr (ascii ''ok'')]"
  let ?url = "JStr (ascii ''/api/std'')"
  have bad: "get_prop ?bad (ascii ''error'') = JStr (ascii ''bad input'')"
    by simp
  have tb: "truthy (get_prop ?bad (ascii ''error''))"
    by (simp add: ascii_def)
  have good: "\<not> truthy (get_prop ?good (ascii ''error''))"
    by (simp add: ascii_def)
  have v: "validateStatus 200" "\<not> validateStatus 500" "(120::nat) \<le> 30000"
    by (simp_all add: validateStatus_def)
  have 1: "response_fulfilled \<lparr>status = 200, response_data = ?bad\<rparr> =
      Rejected (NewError (JStr (ascii ''bad input'')))"
    using response_error_field_by_status [of "\<lparr>status = 200, response_data = ?bad\<rparr>"] tb bad
    by simp
  have 2: "response_fulfilled \<lparr>status = 200, response_data = ?good\<rparr> = Resolved ?good"
    using response_error_field_by_status [of "\<lparr>status = 200, response_data = ?good\<rparr>"] good
    by simp
  have 3: "map_option outcome (client_post JUndefined (\<lambda>n c. Replies 120 200 ?bad) ?url JUndefined) =
      Some (Rejected (NewError (JStr (ascii ''bad input''))))"
    using response_error_field_by_status [of _ "\<lambda>n c. Replies 120 200 ?bad" JUndefined ?url
        JUndefined 120 200 ?bad] tb bad v
    by simp
  have 4: "map_option outcome (client_post JUndefined (\<lambda>n c. Replies 120 200 ?good) ?url JUndefined) =
      Some (Resolved ?good)"
    using response_error_field_by_status [of _ "\<lambda>n c. Replies 120 200 ?good" JUndefined ?url
        JUndefined 120 200 ?good] good v
    by simp
  have 5: "map_option outcome (client_post JUndefined (\<lambda>n c. Replies 120 500 ?bad) ?url JUndefined) =
      Some (Rejected (NewError (status_message JUndefined 500)))"
    using response_error_field_by_status [of _ "\<lambda>n c. Replies 120 500 ?bad" JUndefined ?url
        JUndefined 120 500 ?bad] v
    by simp
  obtain res where r: "client_post JUndefined (\<lambda>n c. Replies 120 200 ?good) ?url JUndefined = Some res"
    "outcome res = Resolved ?good"
    using 4 by auto
  have 6: "\<not> truthy (get_prop ?good (ascii ''error''))"
    using response_error_field_by_status [of _ "\<lambda>n c. Replies 120 200 ?good" JUndefined ?url
        JUndefined _ _ _ res ?good] r
    by blast
  show ?thesis using 1 2 3 4 5 6 v by blast
qed

text \<open>
  C8, as stated for every response, fails outside 200..299: a 500 response whose body has the
  truthy \<open>error\<close> field \<open>E\<close> rejects with the server-error message, not with \<open>E\<close>, and a 404
  response without an \<open>error\<close> field rejects with the not-found message instead of resolving
  to its body.
\<close>

theorem response_error_any_status_counterexample:
  "truthy (get_prop (JObj [ascii ''error'' \<mapsto> JStr (ascii ''E'')]) (ascii ''error'')) \<and>
   map_option outcome
     (client_post JUndefined
        (\<lambda>n c. Replies 80 500 (JObj [ascii ''error'' \<mapsto> JStr (ascii ''E'')]))
        (JStr (ascii ''/api/std'')) JUndefined) =
     Some (Rejected (NewError
       (JStr [0x670D, 0x52A1, 0x5668, 0x9519, 0x8BEF, 0xFF0C, 0x8BF7, 0x7A0D, 0x540E, 0x91CD,
              0x8BD5]))) \<and>
   map_option outcome
     (client_post JUndefined
        (\<lambda>n c. Replies 80 500 (JObj [ascii ''error'' \<mapsto> JStr (ascii ''E'')]))
        (JStr (ascii ''/api/std'')) JUndefined) \<noteq>
     Some (Rejected (NewError (JStr (ascii ''E'')))) \<and>
   \<not> truthy (get_prop (JObj [ascii ''result'' \<mapsto> JStr (ascii ''r'')]) (ascii ''error'')) \<and>
   map_option outcome
     (client_post JUndefined
        (\<lambda>n c. Replies 80 404 (JObj [ascii ''result'' \<mapsto> JStr (ascii ''r'')]))
        (JStr (ascii ''/api/std'')) JUndefined) =
     Some (Rejected (NewError
       (JStr [0x8BF7, 0x6C42, 0x7684, 0x8D44, 0x6E90, 0x4E0D, 0x5B58, 0x5728]))) \<and>
   map_option outcome
     (client_post JUndefined
        (\<lambda>n c. Replies 80 404 (JObj [ascii ''result'' \<mapsto> JStr (ascii ''r'')]))
        (JStr (ascii ''/api/std'')) JUndefined) \<noteq>
     Some (Resolved (JObj [ascii ''result'' \<mapsto> JStr (ascii ''r'')]))"
proof -
  have m500: "status_message JUndefined 500 =
      JStr [0x670D, 0x52A1, 0x5668, 0x9519, 0x8BEF, 0xFF0C, 0x8BF7, 0x7A0D, 0x540E, 0x91CD,
            0x8BD5]"
    by (simp add: status_message_def API_CONFIG_def js_or_def ascii_def)
  have m404: "status_message JUndefined 404 =
      JStr [0x8BF7, 0x6C42, 0x7684, 0x8D44, 0x6E90, 0x4E0D, 0x5B58, 0x5728]"
    by (simp add: status_message_def API_CONFIG_def js_or_def ascii_def)
  have v: "\<not> validateStatus 500" "\<not> validateStatus 404"
    by (simp_all add: validateStatus_def)
  have a: "map_option outcome
     (client_post JUndefined
        (\<lambda>n c. Replies 80 500 (JObj [ascii ''error'' \<mapsto> JStr (ascii ''E'')]))
        (JStr (ascii ''/api/std'')) JUndefined) =
     Some (Rejected (NewError (status_message JUndefined 500)))"
    using v by (simp add: client_post_answer)
  have b: "map_option outcome
     (client_post JUndefined
        (\<lambda>n c. Replies 80 404 (JObj [ascii ''result'' \<mapsto> JStr (ascii ''r'')]))
        (JStr (ascii ''/api/std'')) JUndefined) =
     Some (Rejected (NewError (status_message JUndefined 404)))"
    using v by (simp add: client_post_answer)
  have t: "truthy (get_prop (JObj [ascii ''error'' \<mapsto> JStr (ascii ''E'')]) (ascii ''error''))"
    "\<not> truthy (get_prop (JObj [ascii ''result'' \<mapsto> JStr (ascii ''r'')]) (ascii ''error''))"
    by (simp_all add: ascii_def)
  have ne: "JStr [0x670D, 0x52A1, 0x5668, 0x9519, 0x8BEF, 0xFF0C, 0x8BF7, 0x7A0D, 0x540E, 0x91CD,
            0x8BD5] \<noteq> JStr (ascii ''E'')"
    by (simp add: ascii_def)
  show ?thesis
    using t ne by (simp only: a b m500 m404) simp
qed

text \<open>
  C9, as the code has it. For every outgoing request whose data payload is truthy (every
  object is), the request interceptor sets each of \<open>model_name\<close>, \<open>temperature\<close>, \<open>top_p\<close> and
  \<open>max_tokens\<close> that is falsy to its default, \<open>glm-4-plus\<close>, 0.7, 0.9 and 2000, and keeps
  every other field and the rest of the configuration; in particular a supplied 0 for
  \<open>temperature\<close>, \<open>top_p\<close> or \<open>max_tokens\<close> is replaced by the default. A request whose data is
  falsy (undefined or null, and also the payloads 0, the empty string, false and NaN) is
  passed on as it is, with no defaults added.
\<close>

theorem request_interceptor_defaults:
  "(truthy (data config) \<longrightarrow>
      get_prop (data (request_interceptor env config)) model_name =
        (if truthy (get_prop (data config) model_name) then get_prop (data config) model_name
         else JStr (ascii ''glm-4-plus'')) \<and>
      get_prop (data (request_interceptor env config)) temperature =
        (if truthy (get_prop (data config) temperature) then get_prop (data config) temperature
         else JNum (Finite (7 / 10))) \<and>
      get_prop (data (request_interceptor env config)) top_p =
        (if truthy (get_prop (data config) top_p) then get_prop (data config) top_p
         else JNum (Finite (9 / 10))) \<and>
      get_prop (data (request_interceptor env config)) max_tokens =
        (if truthy (get_prop (data config) max_tokens) then get_prop (data config) max_tokens
         else JNum (Finite 2000)) \<and>
      (\<forall>k. k \<notin> {model_name, temperature, top_p, max_tokens} \<longrightarrow>
         own_props (data (request_interceptor env config)) k = own_props (data config) k) \<and>
      request_interceptor env config = config\<lparr>data := data (request_interceptor env config)\<rparr>) \<and>
   (get_prop (data config) temperature = JNum (Finite 0) \<longrightarrow>
      get_prop (data (request_interceptor env config)) temperature = JNum (Finite (7 / 10))) \<and>
   (get_prop (data config) top_p = JNum (Finite 0) \<longrightarrow>
      get_prop (data (request_interceptor env config)) top_p = JNum (Finite (9 / 10))) \<and>
   (get_prop (data config) max_tokens = JNum (Finite 0) \<longrightarrow>
      get_prop (data (request_interceptor env config)) max_tokens = JNum (Finite 2000)) \<and>
   (\<not> truthy (data config) \<longrightarrow> request_interceptor env config = config)"
proof -
  have filled:
    "get_prop (data (request_interceptor env config)) model_name =
        (if truthy (get_prop (data config) model_name) then get_prop (data config) model_name
         else JStr (ascii ''glm-4-plus''))"
    "get_prop (data (request_interceptor env config)) temperature =
        (if truthy (get_prop (data config) temperature) then get_prop (data config) temperature
         else JNum (Finite (7 / 10)))"
    "get_prop (data (request_interceptor env config)) top_p =
        (if truthy (get_prop (data config) top_p) then get_prop (data config) top_p
         else JNum (Finite (9 / 10)))"
    "get_prop (data (request_interceptor env config)) max_tokens =
        (if truthy (get_prop (data config) max_tokens) then get_prop (data config) max_tokens
         else JNum (Finite 2000))"
    "\<forall>k. k \<notin> {model_name, temperature, top_p, max_tokens} \<longrightarrow>
         own_props (data (request_interceptor env config)) k = own_props (data config) k"
    "request_interceptor env config = config\<lparr>data := data (request_interceptor env config)\<rparr>"
    if "truthy (data config)"
    using request_keys_distinct
    by (simp_all add: request_interceptor_truthy [OF that] js_or_def)
  have obj: "truthy (data config)" if "get_prop (data config) k = JNum (Finite 0)" for k
    using that by (cases "data config") simp_all
  have t0: "get_prop (data (request_interceptor env config)) temperature = JNum (Finite (7 / 10))"
    if "get_prop (data config) temperature = JNum (Finite 0)"
    using filled(2) [OF obj [OF that]] that by simp
  have p0: "get_prop (data (request_interceptor env config)) top_p = JNum (Finite (9 / 10))"
    if "get_prop (data config) top_p = JNum (Finite 0)"
    using filled(3) [OF obj [OF that]] that by simp
  have m0: "get_prop (data (request_interceptor env config)) max_tokens = JNum (Finite 2000)"
    if "get_prop (data config) max_tokens = JNum (Finite 0)"
    using filled(4) [OF obj [OF that]] that by simp
  show ?thesis
    using filled t0 p0 m0 request_interceptor_falsy [of config env]
    by (intro conjI impI) blast+
qed


theorem request_interceptor_defaults_witness:
  "(let d = JObj [ascii ''text'' \<mapsto> JStr (ascii ''ETF''), model_name \<mapsto> JStr (ascii ''glm-4''),
                  temperature \<mapsto> JNum (Finite 0), top_p \<mapsto> JNum (Finite 0),
                  max_tokens \<mapsto> JNum (Finite 0)];
        c = post_config JUndefined (JStr (ascii ''/api/std'')) d;
        out = data (request_interceptor JUndefined c)
    in truthy (data c) \<and>
       get_prop (data c) temperature = JNum (Finite 0) \<and>
       get_prop (data c) top_p = JNum (Finite 0) \<and>
       get_prop (data c) max_tokens = JNum (Finite 0) \<and>
       ascii ''text'' \<notin> {model_name, temperature, top_p, max_tokens} \<and>
       get_prop out model_name = JStr (ascii ''glm-4'') \<and>
       get_prop out temperature = JNum (Finite (7 / 10)) \<and>
       get_prop out top_p = JNum (Finite (9 / 10)) \<and>
       get_prop out max_tokens = JNum (Finite 2000) \<and>
       own_props out (ascii ''text'') = Some (JStr (ascii ''ETF''))) \<and>
   (let c = post_config JUndefined (JStr (ascii ''/api/ner'')) JUndefined
    in \<not> truthy (data c) \<and> request_interceptor JUndefined c = c)"
proof -
  let ?d = "JObj [ascii ''text'' \<mapsto> JStr (ascii ''ETF''), model_name \<mapsto> JStr (ascii ''glm-4''),
                  temperature \<mapsto> JNum (Finite 0), top_p \<mapsto> JNum (Finite 0),
                  max_tokens \<mapsto> JNum (Finite 0)]"
  let ?c = "post_config JUndefined (JStr (ascii ''/api/std'')) ?d"
  let ?e = "post_config JUndefined (JStr (ascii ''/api/ner'')) JUndefined"
  have d: "data ?c = ?d" and e: "data ?e = JUndefined"
    by (simp_all add: post_config_def)
  have keys: "ascii ''text'' \<notin> {model_name, temperature, top_p, max_tokens}"
    by (simp add: model_name_def temperature_def top_p_def max_tokens_def ascii_def)
  have old: "get_prop ?d model_name = JStr (ascii ''glm-4'')"
    "get_prop ?d temperature = JNum (Finite 0)"
    "get_prop ?d top_p = JNum (Finite 0)"
    "get_prop ?d max_tokens = JNum (Finite 0)"
    "own_props ?d (ascii ''text'') = Some (JStr (ascii ''ETF''))"
    using request_keys_distinct keys by simp_all
  have t: "truthy (JStr (ascii ''glm-4''))"
    by (simp add: ascii_def)
  have full: "truthy (data ?c)" "\<not> truthy (data ?e)"
    by (simp_all add: d e)
  show ?thesis
    using request_interceptor_defaults [of ?c JUndefined]
      request_interceptor_defaults [of ?e JUndefined] keys old t full
    unfolding Let_def d by simp
qed

text \<open>
  C9, as stated for every payload that is not null, fails: the payloads 0 and the empty
  string are not null, and the interceptor passes both requests on with no defaults added.
\<close>

theorem request_interceptor_falsy_payload_counterexample:
  "data (post_config JUndefined (JStr (ascii ''/api/std'')) (JNum (Finite 0))) \<noteq> JNull \<and>
   data (post_config JUndefined (JStr (ascii ''/api/std'')) (JNum (Finite 0))) \<noteq> JUndefined \<and>
   request_interceptor JUndefined
     (post_config JUndefined (JStr (ascii ''/api/std'')) (JNum (Finite 0))) =
     post_config JUndefined (JStr (ascii ''/api/std'')) (JNum (Finite 0)) \<and>
   get_prop (data (request_interceptor JUndefined
     (post_config JUndefined (JStr (ascii ''/api/std'')) (JNum (Finite 0))))) model_name =
     JUndefined \<and>
   data (post_config JUndefined (JStr (ascii ''/api/std'')) (JStr [])) \<noteq> JNull \<and>
   data (post_config JUndefined (JStr (ascii ''/api/std'')) (JStr [])) \<noteq> JUndefined \<and>
   request_interceptor JUndefined
     (post_config JUndefined (JStr (ascii ''/api/std'')) (JStr [])) =
     post_config JUndefined (JStr (ascii ''/api/std'')) (JStr []) \<and>
   get_prop (data (request_interceptor JUndefined
     (post_config JUndefined (JStr (ascii ''/api/std'')) (JStr [])))) temperature =
     JUndefined"
  by (simp add: request_interceptor_def post_config_def)

lemma max_retries: "maxRetries (retry (API_CONFIG env)) = 3"
  by (simp add: API_CONFIG_def)

lemma config_timeout: "timeout (API_CONFIG env) = 30000"
  by (simp add: API_CONFIG_def)

lemma client_post_first_attempt:
  "server 0 = server' 0 \<Longrightarrow> client_post env server u d = client_post env server' u d"
  by (simp add: client_post_def)

lemma response_rejected_network:
  "response_rejected env no_response_error =
     Rejected (NewError
       (JStr [0x7F51, 0x7EDC, 0x8FDE, 0x63A5, 0x5931, 0x8D25, 0xFF0C, 0x8BF7, 0x68C0,
              0x67E5, 0x7F51, 0x7EDC, 0x8BBE, 0x7F6E]))"
  by (simp only: response_rejected_no_response network_error_message)

text \<open>
  C3. A call through the client hands the request to the transport once: the number of
  retries is 0, within the configured \<open>maxRetries\<close> of 3, whatever the server would do at
  later attempts. Every failure is surfaced by that single attempt: a response with a status
  outside 200..299 (a validation error such as 400 as much as a transient 503) rejects with
  the message of its status, a failed connection rejects with the network message.
\<close>

theorem client_post_single_attempt:
  "\<exists>r. client_post env server u d = Some r \<and>
        sent r = [request_interceptor env (post_config env u d)] \<and>
        length (sent r) - 1 \<le> maxRetries (retry (API_CONFIG env)) \<and>
        maxRetries (retry (API_CONFIG env)) = 3 \<and>
        (\<forall>server'. server' 0 = server 0 \<longrightarrow> client_post env server' u d = Some r) \<and>
        (\<forall>ms s body.
           server 0 (request_interceptor env (post_config env u d)) = Replies ms s body \<and>
           ms \<le> 30000 \<and> \<not> validateStatus s \<longrightarrow>
             outcome r = Rejected (NewError (status_message env s)) \<and> elapsed r = ms) \<and>
        (\<forall>ms.
           server 0 (request_interceptor env (post_config env u d)) = ConnectionFails ms \<and>
           ms \<le> 30000 \<longrightarrow>
             outcome r =
               Rejected (NewError
                 (get_prop (JObj (errorMessages (API_CONFIG env))) (ascii ''networkError''))) \<and>
             elapsed r = ms)"
proof -
  let ?cfg = "request_interceptor env (post_config env u d)"
  obtain tr t where a: "adapter 30000 (server 0 ?cfg) = Some (tr, t)"
    and r: "client_post env server u d =
         Some \<lparr>sent = [?cfg],
               outcome = (case tr of Answered r \<Rightarrow> response_fulfilled r
                                   | Failed e \<Rightarrow> response_rejected env e),
               elapsed = t\<rparr>"
    using client_post_cases [of ?cfg env u d server] by blast
  let ?r = "\<lparr>sent = [?cfg],
               outcome = (case tr of Answered r \<Rightarrow> response_fulfilled r
                                   | Failed e \<Rightarrow> response_rejected env e),
               elapsed = t\<rparr>"
  have same: "client_post env server' u d = Some ?r" if "server' 0 = server 0" for server'
    using r client_post_first_attempt [of server' server env u d] that by simp
  have status: "outcome ?r = Rejected (NewError (status_message env s)) \<and> elapsed ?r = ms"
    if "server 0 ?cfg = Replies ms s body" "ms \<le> 30000" "\<not> validateStatus s" for ms s body
    using a that by (auto simp: response_rejected_def)
  have net: "outcome ?r =
               Rejected (NewError
                 (get_prop (JObj (errorMessages (API_CONFIG env))) (ascii ''networkError''))) \<and>
             elapsed ?r = ms"
    if "server 0 ?cfg = ConnectionFails ms" "ms \<le> 30000" for ms
    using a that by (auto simp: response_rejected_no_response)
  show ?thesis
    apply (rule exI [of _ ?r])
    apply (intro conjI allI impI)
    subgoal by (rule r)
    subgoal by simp
    subgoal by simp
    subgoal by (rule max_retries)
    subgoal by (rule same)
    subgoal using status by blast
    subgoal using status by blast
    subgoal using net by blast
    subgoal using net by blast
    done
qed

theorem client_post_single_attempt_witness:
  "(let server = (\<lambda>n c. if n = 0 then Replies 40 503 JNull else Replies 40 200 (JObj Map.empty))
    in server 0 (request_interceptor JUndefined
                   (post_config JUndefined (JStr (ascii ''/api/std'')) JNull)) = Replies 40 503 JNull \<and>
       (40::nat) \<le> 30000 \<and> \<not> validateStatus 503 \<and>
       map_option (\<lambda>r. (length (sent r), outcome r, elapsed r))
         (client_post JUndefined server (JStr (ascii ''/api/std'')) JNull) =
       Some (1, Rejected (NewError
                  (JStr [0x53D1, 0x751F, 0x672A, 0x77E5, 0x9519, 0x8BEF, 0xFF0C, 0x8BF7, 0x7A0D,
                         0x540E, 0x91CD, 0x8BD5])), 40)) \<and>
   (let server = (\<lambda>n c. if n = 0 then Replies 25 400 JNull else Replies 25 200 (JObj Map.empty))
    in \<not> validateStatus 400 \<and>
       map_option (\<lambda>r. (length (sent r), outcome r, elapsed r))
         (client_post JUndefined server (JStr (ascii ''/api/std'')) JNull) =
       Some (1, Rejected (NewError
                  (JStr [0x8BF7, 0x6C42, 0x53C2, 0x6570, 0x9519, 0x8BEF, 0xFF0C, 0x8BF7, 0x68C0,
                         0x67E5, 0x8F93, 0x5165])), 25)) \<and>
   (let server = (\<lambda>n c. if n = 0 then ConnectionFails 15 else Replies 25 200 (JObj Map.empty))
    in map_option (\<lambda>r. (length (sent r), outcome r, elapsed r))
         (client_post JUndefined server (JStr (ascii ''/api/std'')) JNull) =
       Some (1, Rejected (NewError
                  (JStr [0x7F51, 0x7EDC, 0x8FDE, 0x63A5, 0x5931, 0x8D25, 0xFF0C, 0x8BF7, 0x68C0,
                         0x67E5, 0x7F51, 0x7EDC, 0x8BBE, 0x7F6E])), 15))"
proof -
  let ?u = "JStr (ascii ''/api/std'')"
  let ?s1 = "\<lambda>(n::nat) (c::request_config).
      if n = 0 then Replies 40 503 JNull else Replies 40 200 (JObj Map.empty)"
  let ?s2 = "\<lambda>(n::nat) (c::request_config).
      if n = 0 then Replies 25 400 JNull else Replies 25 200 (JObj Map.empty)"
  let ?s3 = "\<lambda>(n::nat) (c::request_config).
      if n = 0 then ConnectionFails 15 else Replies 25 200 (JObj Map.empty)"
  have v: "\<not> validateStatus 503" "\<not> validateStatus 400"
    by (simp_all add: validateStatus_def)
  have m503: "status_message JUndefined 503 =
      JStr [0x53D1, 0x751F, 0x672A, 0x77E5, 0x9519, 0x8BEF, 0xFF0C, 0x8BF7, 0x7A0D,
            0x540E, 0x91CD, 0x8BD5]"
    by (simp add: status_message_def API_CONFIG_def js_or_def ascii_def)
  have m400: "status_message JUndefined 400 =
      JStr [0x8BF7, 0x6C42, 0x53C2, 0x6570, 0x9519, 0x8BEF, 0xFF0C, 0x8BF7, 0x68C0,
            0x67E5, 0x8F93, 0x5165]"
    by (simp add: status_message_def API_CONFIG_def js_or_def ascii_def)
  obtain r1 where r1: "client_post JUndefined ?s1 ?u JNull = Some r1"
      "length (sent r1) = 1"
      "outcome r1 = Rejected (NewError (status_message JUndefined 503))" "elapsed r1 = 40"
    using client_post_single_attempt [of JUndefined ?s1 ?u JNull] v by force
  obtain r2 where r2: "client_post JUndefined ?s2 ?u JNull = Some r2"
      "length (sent r2) = 1"
      "outcome r2 = Rejected (NewError (status_message JUndefined 400))" "elapsed r2 = 25"
    using client_post_single_attempt [of JUndefined ?s2 ?u JNull] v by force
  obtain r3 where r3: "client_post JUndefined ?s3 ?u JNull = Some r3"
      "length (sent r3) = 1"
      "outcome r3 = Rejected (NewError
          (get_prop (JObj (errorMessages (API_CONFIG JUndefined))) (ascii ''networkError'')))"
      "elapsed r3 = 15"
    using client_post_single_attempt [of JUndefined ?s3 ?u JNull] by force
  show ?thesis
    unfolding Let_def
    using v r1 r2 r3 m503 m400 network_error_message [of JUndefined]
    by (simp only: map_option_case option.case prod.inject) simp
qed

text \<open>
  C5. Every request of the client carries the configured timeout of 30000 milliseconds, so
  every call settles within 30000 milliseconds; when the server has not answered by then,
  the call fails with the network-unavailable error instead of hanging.
\<close>

theorem client_post_timeout:
  "\<exists>r. client_post env server u d = Some r \<and>
        (\<forall>c \<in> set (sent r). cfg_timeout c = timeout (API_CONFIG env)) \<and>
        timeout (API_CONFIG env) = 30000 \<and>
        elapsed r \<le> 30000 \<and>
        (\<not> settles_within 30000 (server 0 (request_interceptor env (post_config env u d))) \<longrightarrow>
           elapsed r = 30000 \<and>
           outcome r =
             Rejected (NewError
               (JStr [0x7F51, 0x7EDC, 0x8FDE, 0x63A5, 0x5931, 0x8D25, 0xFF0C, 0x8BF7, 0x68C0,
                      0x67E5, 0x7F51, 0x7EDC, 0x8BBE, 0x7F6E])))"
proof -
  let ?cfg = "request_interceptor env (post_config env u d)"
  obtain tr t where a: "adapter 30000 (server 0 ?cfg) = Some (tr, t)" and t: "t \<le> 30000"
    and r: "client_post env server u d =
         Some \<lparr>sent = [?cfg],
               outcome = (case tr of Answered r \<Rightarrow> response_fulfilled r
                                   | Failed e \<Rightarrow> response_rejected env e),
               elapsed = t\<rparr>"
    using client_post_cases [of ?cfg env u d server] by blast
  let ?r = "\<lparr>sent = [?cfg],
               outcome = (case tr of Answered r \<Rightarrow> response_fulfilled r
                                   | Failed e \<Rightarrow> response_rejected env e),
               elapsed = t\<rparr>"
  have late: "elapsed ?r = 30000 \<and>
           outcome ?r =
             Rejected (NewError
               (JStr [0x7F51, 0x7EDC, 0x8FDE, 0x63A5, 0x5931, 0x8D25, 0xFF0C, 0x8BF7, 0x68C0,
                      0x67E5, 0x7F51, 0x7EDC, 0x8BBE, 0x7F6E]))"
    if "\<not> settles_within 30000 (server 0 ?cfg)"
    using a adapter_timeout [OF _ that]
    by (auto simp: response_rejected_network)
  show ?thesis
    apply (rule exI [of _ ?r])
    apply (intro conjI impI)
    subgoal by (rule r)
    subgoal by (simp add: request_interceptor_timeout config_timeout)
    subgoal by (rule config_timeout)
    subgoal using t by simp
    subgoal using late by blast
    subgoal using late by blast
    done
qed


theorem client_post_timeout_witness:
  "\<not> settles_within 30000 Silent \<and>
   map_option (\<lambda>r. (map cfg_timeout (sent r), outcome r, elapsed r))
     (client_post JUndefined (\<lambda>n c. Silent) (JStr (ascii ''/api/std'')) JNull) =
   Some ([30000], Rejected (NewError
            (JStr [0x7F51, 0x7EDC, 0x8FDE, 0x63A5, 0x5931, 0x8D25, 0xFF0C, 0x8BF7, 0x68C0,
                   0x67E5, 0x7F51, 0x7EDC, 0x8BBE, 0x7F6E])), 30000) \<and>
   \<not> settles_within 30000 (Replies 45000 200 (JObj Map.empty)) \<and>
   map_option (\<lambda>r. (outcome r, elapsed r))
     (client_post JUndefined (\<lambda>n c. Replies 45000 200 (JObj Map.empty))
        (JStr (ascii ''/api/std'')) JNull) =
   Some (Rejected (NewError
            (JStr [0x7F51, 0x7EDC, 0x8FDE, 0x63A5, 0x5931, 0x8D25, 0xFF0C, 0x8BF7, 0x68C0,
                   0x67E5, 0x7F51, 0x7EDC, 0x8BBE, 0x7F6E])), 30000)"
proof -
  let ?u = "JStr (ascii ''/api/std'')"
  let ?slow = "\<lambda>(n::nat) (c::request_config). Replies 45000 200 (JObj Map.empty)"
  let ?msg = "JStr [0x7F51, 0x7EDC, 0x8FDE, 0x63A5, 0x5931, 0x8D25, 0xFF0C, 0x8BF7, 0x68C0,
                   0x67E5, 0x7F51, 0x7EDC, 0x8BBE, 0x7F6E]"
  have h: "\<not> settles_within 30000 Silent"
    "\<not> settles_within 30000 (Replies 45000 200 (JObj Map.empty))"
    by simp_all
  obtain r1 where r1: "client_post JUndefined (\<lambda>n c. Silent) ?u JNull = Some r1"
      "\<forall>c \<in> set (sent r1). cfg_timeout c = 30000" "length (sent r1) = 1"
      "elapsed r1 = 30000" "outcome r1 = Rejected (NewError ?msg)"
    using client_post_timeout [of JUndefined "\<lambda>n c. Silent" ?u JNull] h(1)
      client_post_cases [of _ JUndefined ?u JNull "\<lambda>n c. Silent"]
    by force
  obtain r2 where r2: "client_post JUndefined ?slow ?u JNull = Some r2"
      "elapsed r2 = 30000" "outcome r2 = Rejected (NewError ?msg)"
    using client_post_timeout [of JUndefined ?slow ?u JNull] h(2) by force
  have "map cfg_timeout (sent r1) = [30000]"
    using r1(2,3) by (cases "sent r1") auto
  then show ?thesis
    using h r1 r2 by simp
qed

section \<open>Blank text is rejected before the provider is asked\<close>

lemma trim_empty_iff: "trim s = [] \<longleftrightarrow> (\<forall>c \<in> set s. is_white_space c)"
proof
  assume "trim s = []"
  then have all: "\<forall>c \<in> set (dropWhile is_white_space s). is_white_space c"
    by (simp add: trim_def)
  have "dropWhile is_white_space s = []"
  proof (rule ccontr)
    assume ne: "dropWhile is_white_space s \<noteq> []"
    then have "\<not> is_white_space (hd (dropWhile is_white_space s))"
      by (rule hd_dropWhile)
    moreover have "hd (dropWhile is_white_space s) \<in> set (dropWhile is_white_space s)"
      using ne by simp
    ultimately show False using all by blast
  qed
  then show "\<forall>c \<in> set s. is_white_space c"
    by simp
next
  assume "\<forall>c \<in> set s. is_white_space c"
  then show "trim s = []"
    by (auto simp: trim_def dest: set_dropWhileD)
qed

lemma standardize_logged_result:
  "snd (standardize_logged provider sim idx store text_arg topK thr) =
     standardize provider sim idx store text_arg topK thr"
  by (simp add: standardize_logged_def standardize_def)

lemma standardize_logged_requests:
  "fst (standardize_logged provider sim idx store text_arg topK thr) =
     (if trim text_arg = [] then [] else [text_arg])"
  by (simp add: standardize_logged_def)

text \<open>
  C1. For every empty or whitespace-only text, \<open>standardize\<close> rejects the input with
  EmptyInput whatever the embedding provider would answer, and issues no request to the
  provider: the rejection comes before the call. For any other text it issues the one
  request for that text.
\<close>

theorem standardize_rejects_blank:
  "((\<forall>c \<in> set text_arg. is_white_space c) \<longrightarrow>
      standardize provider sim idx store text_arg topK thr = Inl EmptyInput \<and>
      standardize_logged provider sim idx store text_arg topK thr = ([], Inl EmptyInput)) \<and>
   (\<not> (\<forall>c \<in> set text_arg. is_white_space c) \<longrightarrow>
      fst (standardize_logged provider sim idx store text_arg topK thr) = [text_arg]) \<and>
   snd (standardize_logged provider sim idx store text_arg topK thr) =
     standardize provider sim idx store text_arg topK thr"
proof -
  have blank: "standardize provider sim idx store text_arg topK thr = Inl EmptyInput \<and>
      standardize_logged provider sim idx store text_arg topK thr = ([], Inl EmptyInput)"
    if "\<forall>c \<in> set text_arg. is_white_space c"
  proof -
    have "trim text_arg = []"
      using that by (simp add: trim_empty_iff)
    then show ?thesis
      by (simp add: standardize_def standardize_logged_def)
  qed
  have other: "fst (standardize_logged provider sim idx store text_arg topK thr) = [text_arg]"
    if "\<not> (\<forall>c \<in> set text_arg. is_white_space c)"
  proof -
    have "trim text_arg \<noteq> []"
      using that by (simp add: trim_empty_iff)
    then show ?thesis
      by (simp add: standardize_logged_requests)
  qed
  show ?thesis
    using blank other standardize_logged_result [of provider sim idx store text_arg topK thr]
    by blast
qed

theorem standardize_rejects_blank_witness:
  "is_white_space 0x0020 \<and> is_white_space 0x3000 \<and> is_white_space 0x000A \<and>
   standardize scenario_provider cosine_similarity scenario_index scenario_store
     [0x0020, 0x3000, 0x000A] 5 (3 / 4) = Inl EmptyInput \<and>
   standardize_logged scenario_provider cosine_similarity scenario_index scenario_store
     [0x0020, 0x3000, 0x000A] 5 (3 / 4) = ([], Inl EmptyInput) \<and>
   standardize (\<lambda>t. Inl EmbeddingUnavailable) cosine_similarity scenario_index scenario_store
     [] 5 (3 / 4) = Inl EmptyInput \<and>
   \<not> is_white_space 0x80A1 \<and>
   fst (standardize_logged scenario_provider cosine_similarity scenario_index scenario_store
     [0x80A1, 0x5E02] 5 (3 / 4)) = [[0x80A1, 0x5E02]]"
proof -
  let ?blank = "[0x0020, 0x3000, 0x000A] :: js_string"
  let ?q = "[0x80A1, 0x5E02] :: js_string"
  have w: "is_white_space 0x0020" "is_white_space 0x3000" "is_white_space 0x000A"
    "\<not> is_white_space 0x80A1"
    by (simp_all add: is_white_space_def)
  have b: "\<forall>c \<in> set ?blank. is_white_space c"
    using w by simp
  have e: "\<forall>c \<in> set ([] :: js_string). is_white_space c"
    by simp
  have n: "\<not> (\<forall>c \<in> set ?q. is_white_space c)"
    using w by simp
  show ?thesis
    using w
      standardize_rejects_blank [of ?blank scenario_provider cosine_similarity scenario_index
        scenario_store 5 "3 / 4"] b
      standardize_rejects_blank [of "[]" "\<lambda>t. Inl EmbeddingUnavailable" cosine_similarity
        scenario_index scenario_store 5 "3 / 4"] e
      standardize_rejects_blank [of ?q scenario_provider cosine_similarity scenario_index
        scenario_store 5 "3 / 4"] n
    by blast
qed

section \<open>The term standardization engine: ranking, ties and batches\<close>

lemma active_slots_iff:
  "(p, r) \<in> set (active_slots idx) \<longleftrightarrow> p < length idx \<and> idx ! p = Some r"
proof -
  have "(p, r) \<in> set (active_slots idx) \<longleftrightarrow>
      (\<exists>slot. (p, slot) \<in> set (zip [0..<length idx] idx) \<and> slot = Some r)"
    by (force simp: active_slots_def List.map_filter_def)
  also have "\<dots> \<longleftrightarrow> p < length idx \<and> idx ! p = Some r"
    by (auto simp: set_zip intro: exI [of _ p])
  finally show ?thesis .
qed

lemma resolve_all_total:
  assumes "\<forall>h \<in> set hs. \<exists>r t. fst h < length idx \<and> idx ! fst h = Some r \<and>
             store (owner_term_id r) = Some t"
  shows "\<exists>cs. resolve_all idx store hs = Inr cs"
  using assms
proof (induction hs)
  case Nil
  then show ?case by simp
next
  case (Cons h hs)
  then obtain cs where "resolve_all idx store hs = Inr cs" by auto
  moreover obtain r t where "fst h < length idx" "idx ! fst h = Some r"
      "store (owner_term_id r) = Some t"
    using Cons.prems by auto
  ultimately show ?case
    by (simp add: resolve_def)
qed

lemma search_hits_active:
  assumes "h \<in> set (search sim idx q k)"
  shows "\<exists>r. fst h < length idx \<and> idx ! fst h = Some r \<and> snd h = sim q (vector r)"
proof -
  from assms obtain p r where
    "(p, r) \<in> set (take k (sort_key (\<lambda>(p, r). (- sim q (vector r), owner_term_id r))
        (active_slots idx)))" and h: "h = (p, sim q (vector r))"
    by (auto simp: search_def)
  then have "(p, r) \<in> set (active_slots idx)"
    by (auto dest: in_set_takeD)
  then show ?thesis
    using h by (auto simp: active_slots_iff)
qed

lemma sorted_rank_scores:
  "sorted (map rank cs) \<Longrightarrow> sorted_wrt (\<lambda>a b. score b \<le> score a) cs"
proof -
  assume "sorted (map rank cs)"
  then have "sorted_wrt (\<lambda>a b. rank a \<le> rank b) cs"
    by (simp add: sorted_map)
  then show ?thesis
    by (rule sorted_wrt_mono_rel [rotated]) (auto simp: rank_def)
qed

lemma standardize_Inr:
  assumes "standardize provider sim idx store text_arg topK thr = Inr res"
  shows "\<exists>v cands. trim text_arg \<noteq> [] \<and> provider text_arg = Inr v \<and>
           resolve_all idx store (search sim idx v topK) = Inr cands \<and>
           res = sort_key rank (filter (\<lambda>c. thr \<le> score c) cands)"
  using assms by (auto simp: standardize_def split: if_splits sum.splits)

lemma standardize_succeeds:
  assumes t: "trim text_arg \<noteq> []" and p: "provider text_arg = Inr v"
    and o: "every_vector_owned idx store"
  shows "\<exists>cs. standardize provider sim idx store text_arg topK thr =
           Inr (sort_key rank (filter (\<lambda>c. thr \<le> score c) cs))"
proof -
  have "\<forall>h \<in> set (search sim idx v topK). \<exists>r t. fst h < length idx \<and> idx ! fst h = Some r \<and>
           store (owner_term_id r) = Some t"
  proof
    fix h assume "h \<in> set (search sim idx v topK)"
    then obtain r where r: "fst h < length idx" "idx ! fst h = Some r"
      using search_hits_active by blast
    then have "Some r \<in> set idx"
      by (metis nth_mem)
    then have "store (owner_term_id r) \<noteq> None"
      using o by (auto simp: every_vector_owned_def list_all_iff split: option.splits)
    then show "\<exists>r t. fst h < length idx \<and> idx ! fst h = Some r \<and>
           store (owner_term_id r) = Some t"
      using r by blast
  qed
  then obtain cs where "resolve_all idx store (search sim idx v topK) = Inr cs"
    using resolve_all_total by blast
  then have "standardize provider sim idx store text_arg topK thr =
      Inr (sort_key rank (filter (\<lambda>c. thr \<le> score c) cs))"
    using t p by (simp add: standardize_def)
  then show ?thesis ..
qed

lemma scenario_query:
  "standardize scenario_provider cosine_similarity scenario_index scenario_store
     [0x80A1, 0x5E02] 5 (3 / 4) = Inr [\<lparr>cand_term = stock_term, score = 4 / 5\<rparr>]"
  by (simp add: standardize_def search_def scenario_index_def active_slots_def
      List.map_filter_def cosine_similarity_def upt_rec trim_def is_white_space_def
      resolve_def scenario_store_def scenario_provider_def)

lemma scenario_bond:
  "standardize scenario_provider cosine_similarity scenario_index scenario_store
     [0x503A, 0x5238] 5 (3 / 4) = Inr [\<lparr>cand_term = bond_term, score = 1\<rparr>]"
  by (simp add: standardize_def search_def scenario_index_def active_slots_def
      List.map_filter_def cosine_similarity_def upt_rec trim_def is_white_space_def
      resolve_def scenario_store_def scenario_provider_def)

lemma scenario_owned: "every_vector_owned scenario_index scenario_store"
  by (simp add: every_vector_owned_def scenario_index_def scenario_store_def)

lemma owner_of_active:
  "(p, r) \<in> set (active_slots idx) \<Longrightarrow> owner_of idx p = Some (owner_term_id r)"
  by (simp add: active_slots_iff owner_of_def)

lemma search_sorted:
  "sorted_wrt
     (\<lambda>h h'. snd h' < snd h \<or>
        (snd h = snd h' \<and>
         (\<exists>a b. owner_of idx (fst h) = Some a \<and> owner_of idx (fst h') = Some b \<and> a \<le> b)))
     (search sim idx q k)"
proof -
  let ?key = "\<lambda>(p, r). (- sim q (vector r), owner_term_id r)"
  let ?xs = "take k (sort_key ?key (active_slots idx))"
  let ?R = "\<lambda>h h'. snd h' < snd h \<or>
        (snd h = snd h' \<and>
         (\<exists>a b. owner_of idx (fst h) = Some a \<and> owner_of idx (fst h') = Some b \<and> a \<le> b))"
  let ?f = "\<lambda>(p, r). (p, sim q (vector r))"
  have "sorted (map ?key (sort_key ?key (active_slots idx)))"
    by (rule sorted_sort_key)
  then have "sorted (take k (map ?key (sort_key ?key (active_slots idx))))"
    by (rule sorted_wrt_take)
  then have "sorted_wrt (\<lambda>x y. ?key x \<le> ?key y) ?xs"
    by (simp add: take_map sorted_map)
  moreover have "?R (?f x) (?f y)"
    if "x \<in> set ?xs" "y \<in> set ?xs" "?key x \<le> ?key y" for x y
  proof -
    obtain p r p' r' where x: "x = (p, r)" and y: "y = (p', r')"
      by (cases x, cases y) blast
    have "(p, r) \<in> set (active_slots idx)" "(p', r') \<in> set (active_slots idx)"
      using that x y by (auto dest: in_set_takeD)
    then have "owner_of idx p = Some (owner_term_id r)" "owner_of idx p' = Some (owner_term_id r')"
      by (simp_all add: owner_of_active)
    then show ?thesis
      using that(3) x y by auto
  qed
  ultimately have "sorted_wrt (\<lambda>x y. ?R (?f x) (?f y)) ?xs"
    by (rule sorted_wrt_mono_rel [rotated])
  then show ?thesis
    by (simp add: search_def sorted_wrt_map)
qed

lemma sorted_rank_ties:
  "sorted (map rank cs) \<Longrightarrow>
     sorted_wrt (\<lambda>a b. score b < score a \<or>
        (score a = score b \<and> term_id (cand_term a) \<le> term_id (cand_term b))) cs"
proof -
  assume "sorted (map rank cs)"
  then have "sorted_wrt (\<lambda>a b. rank a \<le> rank b) cs"
    by (simp add: sorted_map)
  then show ?thesis
    by (rule sorted_wrt_mono_rel [rotated]) (auto simp: rank_def)
qed

lemma standardize_same_embedding:
  "trim t1 \<noteq> [] \<Longrightarrow> trim t2 \<noteq> [] \<Longrightarrow> provider t1 = provider t2 \<Longrightarrow>
     standardize provider sim idx store t1 k thr = standardize provider sim idx store t2 k thr"
  by (simp add: standardize_def)

lemma standardize_batch_length:
  "length (standardize_batch provider sim idx store texts k thr) = length texts"
  by (induction texts) simp_all

lemma standardize_batch_nth:
  "i < length texts \<Longrightarrow>
     standardize_batch provider sim idx store texts k thr ! i =
       standardize provider sim idx store (texts ! i) k thr"
proof (induction texts arbitrary: i)
  case Nil
  then show ?case by simp
next
  case (Cons t ts)
  then show ?case by (cases i) simp_all
qed

lemma standardize_provider_failure:
  "trim t \<noteq> [] \<Longrightarrow> provider t = Inl e \<Longrightarrow> standardize provider sim idx store t k thr = Inl e"
  by (simp add: standardize_def)

text \<open>
  C2. Whenever \<open>standardize\<close> returns a sequence of candidates, their scores are
  non-increasing along the sequence and every one of them is at least the similarity
  threshold; and it does return one for every text that is not blank, that the provider
  embeds, over an index whose vectors all have their term.
\<close>

theorem standardize_ranked:
  "(standardize provider sim idx store text_arg topK thr = Inr res \<longrightarrow>
      sorted_wrt (\<lambda>a b. score b \<le> score a) res \<and> (\<forall>c \<in> set res. thr \<le> score c)) \<and>
   (trim text_arg \<noteq> [] \<and> provider text_arg = Inr v \<and>
    every_vector_owned idx store \<longrightarrow>
      (\<exists>res. standardize provider sim idx store text_arg topK thr = Inr res))"
proof -
  have ranked: "sorted_wrt (\<lambda>a b. score b \<le> score a) res \<and> (\<forall>c \<in> set res. thr \<le> score c)"
    if ok: "standardize provider sim idx store text_arg topK thr = Inr res"
  proof -
    obtain cands where res: "res = sort_key rank (filter (\<lambda>c. thr \<le> score c) cands)"
      using standardize_Inr [OF ok] by blast
    have "sorted (map rank res)"
      unfolding res by (rule sorted_sort_key)
    then have "sorted_wrt (\<lambda>a b. score b \<le> score a) res"
      by (rule sorted_rank_scores)
    moreover have "\<forall>c \<in> set res. thr \<le> score c"
      unfolding res by simp
    ultimately show ?thesis ..
  qed
  show ?thesis
    using ranked standardize_succeeds [of text_arg provider v idx store sim topK thr] by blast
qed

theorem standardize_ranked_witness:
  "trim [0x80A1, 0x5E02] \<noteq> [] \<and>
   scenario_provider [0x80A1, 0x5E02] = Inr [4 / 5, 3 / 5] \<and>
   every_vector_owned scenario_index scenario_store \<and>
   standardize scenario_provider cosine_similarity scenario_index scenario_store
     [0x80A1, 0x5E02] 5 (1 / 2) =
     Inr [\<lparr>cand_term = stock_term, score = 4 / 5\<rparr>, \<lparr>cand_term = bond_term, score = 3 / 5\<rparr>] \<and>
   sorted_wrt (\<lambda>a b. score b \<le> score a)
     [\<lparr>cand_term = stock_term, score = 4 / 5\<rparr>, \<lparr>cand_term = bond_term, score = 3 / 5\<rparr>] \<and>
   (1 / 2 :: real) \<le> score \<lparr>cand_term = stock_term, score = 4 / 5\<rparr> \<and>
   (1 / 2 :: real) \<le> score \<lparr>cand_term = bond_term, score = 3 / 5\<rparr>"
proof -
  let ?q = "[0x80A1, 0x5E02] :: js_string"
  let ?res = "[\<lparr>cand_term = stock_term, score = 4 / 5\<rparr>, \<lparr>cand_term = bond_term, score = 3 / 5\<rparr>]"
  have t: "trim ?q \<noteq> []"
    by (simp add: trim_def is_white_space_def)
  have p: "scenario_provider ?q = Inr [4 / 5, 3 / 5]"
    by (simp add: scenario_provider_def)
  have o: "every_vector_owned scenario_index scenario_store"
    by (simp add: every_vector_owned_def scenario_index_def scenario_store_def)
  obtain res where r: "standardize scenario_provider cosine_similarity scenario_index
      scenario_store ?q 5 (1 / 2) = Inr res"
    using standardize_ranked [of scenario_provider cosine_similarity scenario_index
        scenario_store ?q 5 "1 / 2" _ "[4 / 5, 3 / 5]"] t p o
    by blast
  have e: "standardize scenario_provider cosine_similarity scenario_index
      scenario_store ?q 5 (1 / 2) = Inr ?res"
    by (simp add: standardize_def search_def scenario_index_def active_slots_def
        List.map_filter_def cosine_similarity_def upt_rec t p
        resolve_def scenario_store_def rank_def stock_term_def bond_term_def)
  have "sorted_wrt (\<lambda>a b. score b \<le> score a) ?res \<and> (\<forall>c \<in> set ?res. 1 / 2 \<le> score c)"
    using standardize_ranked [of scenario_provider cosine_similarity scenario_index
        scenario_store ?q 5 "1 / 2" ?res] e
    by blast
  then show ?thesis
    using t p o e by simp
qed

text \<open>
  C6. For a fixed index state the search is a function of the query, so that two runs of one
  query give the same ordered results, and \<open>standardize\<close> depends on the text only through
  its embedding; the results of both are ordered by descending score, and where two scores
  are equal the smaller term id comes first.
\<close>

theorem search_order_deterministic:
  "sorted_wrt
     (\<lambda>h h'. snd h' < snd h \<or>
        (snd h = snd h' \<and>
         (\<exists>a b. owner_of idx (fst h) = Some a \<and> owner_of idx (fst h') = Some b \<and> a \<le> b)))
     (search sim idx q k) \<and>
   (standardize provider sim idx store text_arg k thr = Inr res \<longrightarrow>
      sorted_wrt (\<lambda>a b. score b < score a \<or>
        (score a = score b \<and> term_id (cand_term a) \<le> term_id (cand_term b))) res) \<and>
   (q = q' \<longrightarrow> search sim idx q k = search sim idx q' k) \<and>
   (trim text_arg \<noteq> [] \<and> trim text' \<noteq> [] \<and> provider text_arg = provider text' \<longrightarrow>
      standardize provider sim idx store text_arg k thr =
        standardize provider sim idx store text' k thr)"
proof -
  have "sorted_wrt (\<lambda>a b. score b < score a \<or>
        (score a = score b \<and> term_id (cand_term a) \<le> term_id (cand_term b))) res"
    if ok: "standardize provider sim idx store text_arg k thr = Inr res"
  proof -
    obtain cands where res: "res = sort_key rank (filter (\<lambda>c. thr \<le> score c) cands)"
      using standardize_Inr [OF ok] by blast
    have "sorted (map rank res)"
      unfolding res by (rule sorted_sort_key)
    then show ?thesis
      by (rule sorted_rank_ties)
  qed
  then show ?thesis
    using search_sorted [of idx sim q k]
      standardize_same_embedding [of text_arg text' provider sim idx store k thr]
    by blast
qed

theorem search_order_deterministic_witness:
  "(let tie = [Some \<lparr>vector = [1, 0], owner_term_id = 2\<rparr>, Some \<lparr>vector = [1, 0], owner_term_id = 1\<rparr>]
    in search cosine_similarity tie [4 / 5, 3 / 5] 5 = [(1, 4 / 5), (0, 4 / 5)] \<and>
       owner_of tie 1 = Some 1 \<and> owner_of tie 0 = Some 2 \<and>
       standardize scenario_provider cosine_similarity tie scenario_store [0x80A1, 0x5E02] 5 (1 / 2) =
         Inr [\<lparr>cand_term = stock_term, score = 4 / 5\<rparr>, \<lparr>cand_term = bond_term, score = 4 / 5\<rparr>] \<and>
       sorted_wrt (\<lambda>a b. score b < score a \<or>
          (score a = score b \<and> term_id (cand_term a) \<le> term_id (cand_term b)))
         [\<lparr>cand_term = stock_term, score = 4 / 5\<rparr>, \<lparr>cand_term = bond_term, score = 4 / 5\<rparr>]) \<and>
   trim [0x0041] \<noteq> [] \<and> trim [0x0042] \<noteq> [] \<and>
   scenario_provider [0x0041] = scenario_provider [0x0042] \<and>
   standardize scenario_provider cosine_similarity scenario_index scenario_store [0x0041] 5 (1 / 2) =
     standardize scenario_provider cosine_similarity scenario_index scenario_store [0x0042] 5 (1 / 2)"
proof -
  let ?tie = "[Some \<lparr>vector = [1, 0], owner_term_id = 2\<rparr>, Some \<lparr>vector = [1, 0], owner_term_id = 1\<rparr>]"
  let ?q = "[0x80A1, 0x5E02] :: js_string"
  let ?res = "[\<lparr>cand_term = stock_term, score = 4 / 5\<rparr>, \<lparr>cand_term = bond_term, score = 4 / 5\<rparr>]"
  have s: "search cosine_similarity ?tie [4 / 5, 3 / 5] 5 = [(1, 4 / 5), (0, 4 / 5)]"
    by (simp add: search_def active_slots_def List.map_filter_def cosine_similarity_def upt_rec)
  have o: "owner_of ?tie 1 = Some 1" "owner_of ?tie 0 = Some 2"
    by (simp_all add: owner_of_def)
  have t: "trim ?q \<noteq> []" "trim [0x0041] \<noteq> []" "trim [0x0042] \<noteq> []"
    by (simp_all add: trim_def is_white_space_def)
  have p: "scenario_provider ?q = Inr [4 / 5, 3 / 5]"
    "scenario_provider [0x0041] = scenario_provider [0x0042]"
    by (simp_all add: scenario_provider_def)
  have e: "standardize scenario_provider cosine_similarity ?tie scenario_store ?q 5 (1 / 2) =
      Inr ?res"
    by (simp add: standardize_def search_def active_slots_def List.map_filter_def
        cosine_similarity_def upt_rec t p resolve_def scenario_store_def rank_def
        stock_term_def bond_term_def)
  have "sorted_wrt (\<lambda>a b. score b < score a \<or>
          (score a = score b \<and> term_id (cand_term a) \<le> term_id (cand_term b))) ?res"
    using search_order_deterministic [of ?tie cosine_similarity _ 5 scenario_provider
        scenario_store ?q "1 / 2" ?res] e
    by blast
  moreover have "standardize scenario_provider cosine_similarity scenario_index scenario_store
      [0x0041] 5 (1 / 2) =
     standardize scenario_provider cosine_similarity scenario_index scenario_store [0x0042] 5 (1 / 2)"
    using search_order_deterministic [of scenario_index cosine_similarity _ 5 scenario_provider
        scenario_store "[0x0041]" "1 / 2" _ _ "[0x0042]"] t p
    by blast
  ultimately show ?thesis
    unfolding Let_def using s o e t p by blast
qed

text \<open>
  C7. Batch standardize over \<open>n\<close> texts returns \<open>n\<close> results, the \<open>i\<close>-th being the result of
  the \<open>i\<close>-th text; an item whose embedding fails carries the EmbeddingUnavailable marker,
  and every item that the provider embeds still carries its ranked result.
\<close>

theorem standardize_batch_items:
  "length (standardize_batch provider sim idx store texts k thr) = length texts \<and>
   (i < length texts \<longrightarrow>
      standardize_batch provider sim idx store texts k thr ! i =
        standardize provider sim idx store (texts ! i) k thr) \<and>
   (i < length texts \<and> trim (texts ! i) \<noteq> [] \<and> provider (texts ! i) = Inl EmbeddingUnavailable \<longrightarrow>
      standardize_batch provider sim idx store texts k thr ! i = Inl EmbeddingUnavailable) \<and>
   (j < length texts \<and> trim (texts ! j) \<noteq> [] \<and> provider (texts ! j) = Inr v \<and>
    every_vector_owned idx store \<longrightarrow>
      (\<exists>res. standardize_batch provider sim idx store texts k thr ! j = Inr res \<and>
             sorted_wrt (\<lambda>a b. score b \<le> score a) res \<and> (\<forall>c \<in> set res. thr \<le> score c)))"
proof -
  have ok: "\<exists>res. standardize_batch provider sim idx store texts k thr ! j = Inr res \<and>
             sorted_wrt (\<lambda>a b. score b \<le> score a) res \<and> (\<forall>c \<in> set res. thr \<le> score c)"
    if j: "j < length texts" and t: "trim (texts ! j) \<noteq> []" and p: "provider (texts ! j) = Inr v"
      and o: "every_vector_owned idx store"
  proof -
    obtain cs where "standardize provider sim idx store (texts ! j) k thr =
        Inr (sort_key rank (filter (\<lambda>c. thr \<le> score c) cs))"
      using standardize_succeeds [of "texts ! j" provider v idx store sim k thr] t p o by blast
    moreover have "sorted_wrt (\<lambda>a b. score b \<le> score a)
        (sort_key rank (filter (\<lambda>c. thr \<le> score c) cs))"
      by (rule sorted_rank_scores) (rule sorted_sort_key)
    moreover have "\<forall>c \<in> set (sort_key rank (filter (\<lambda>c. thr \<le> score c) cs)). thr \<le> score c"
      by simp
    ultimately show ?thesis
      using standardize_batch_nth [OF j] by metis
  qed
  show ?thesis
    using standardize_batch_length [of provider sim idx store texts k thr]
      standardize_batch_nth [of i texts provider sim idx store k thr]
      standardize_provider_failure [of "texts ! i" provider EmbeddingUnavailable sim idx store k thr]
      ok
    by (intro conjI impI) auto
qed

theorem standardize_batch_items_witness:
  "trim [0x503A] \<noteq> [] \<and>
   scenario_provider [0x503A] = Inl EmbeddingUnavailable \<and>
   trim [0x80A1, 0x5E02] \<noteq> [] \<and>
   scenario_provider [0x80A1, 0x5E02] = Inr [4 / 5, 3 / 5] \<and>
   every_vector_owned scenario_index scenario_store \<and>
   standardize_batch scenario_provider cosine_similarity scenario_index scenario_store
     [[0x80A1, 0x5E02], [0x503A], [0x503A, 0x5238]] 5 (3 / 4) =
     [Inr [\<lparr>cand_term = stock_term, score = 4 / 5\<rparr>],
      Inl EmbeddingUnavailable,
      Inr [\<lparr>cand_term = bond_term, score = 1\<rparr>]]"
proof -
  let ?texts = "[[0x80A1, 0x5E02], [0x503A], [0x503A, 0x5238]] :: js_string list"
  let ?b = "standardize_batch scenario_provider cosine_similarity scenario_index scenario_store
     ?texts 5 (3 / 4)"
  have t: "trim [0x503A] \<noteq> []" "trim [0x80A1, 0x5E02] \<noteq> []"
    by (simp_all add: trim_def is_white_space_def)
  have p: "scenario_provider [0x503A] = Inl EmbeddingUnavailable"
    "scenario_provider [0x80A1, 0x5E02] = Inr [4 / 5, 3 / 5]"
    by (simp_all add: scenario_provider_def)
  have len: "length ?b = 3"
    using standardize_batch_items [of scenario_provider cosine_similarity scenario_index
        scenario_store ?texts 5 "3 / 4"] by simp
  have 0: "?b ! 0 = Inr [\<lparr>cand_term = stock_term, score = 4 / 5\<rparr>]"
    using standardize_batch_items [of scenario_provider cosine_similarity scenario_index
        scenario_store ?texts 5 "3 / 4" 0] scenario_query by simp
  have 1: "?b ! 1 = Inl EmbeddingUnavailable"
    using standardize_batch_items [of scenario_provider cosine_similarity scenario_index
        scenario_store ?texts 5 "3 / 4" 1] t p by simp
  have 2: "?b ! 2 = Inr [\<lparr>cand_term = bond_term, score = 1\<rparr>]"
    using standardize_batch_items [of scenario_provider cosine_similarity scenario_index
        scenario_store ?texts 5 "3 / 4" 2] scenario_bond by simp
  have "?b = [Inr [\<lparr>cand_term = stock_term, score = 4 / 5\<rparr>], Inl EmbeddingUnavailable,
      Inr [\<lparr>cand_term = bond_term, score = 1\<rparr>]]"
  proof (rule nth_equalityI)
    show "length ?b = length [Inr [\<lparr>cand_term = stock_term, score = 4 / 5\<rparr>],
        Inl EmbeddingUnavailable, Inr [\<lparr>cand_term = bond_term, score = 1\<rparr>]]"
      using len by simp
  next
    fix i assume "i < length ?b"
    then have "i = 0 \<or> i = 1 \<or> i = 2"
      using len by auto
    then show "?b ! i = [Inr [\<lparr>cand_term = stock_term, score = 4 / 5\<rparr>],
        Inl EmbeddingUnavailable, Inr [\<lparr>cand_term = bond_term, score = 1\<rparr>]] ! i"
      using 0 1 2 by auto
  qed
  then show ?thesis
    using t p scenario_owned by simp
qed

end
